theory Spec2Isabelle
  imports Main "HOL-Library.Word" "HOL-Library.Signed_Division" "HOL-Library.AList"
begin

section \<open>Go values used by holdem/table.go\<close>

text \<open>
  Go's \<open>int\<close> is a 64-bit two's complement integer on the supported platforms: sums,
  differences and products wrap around, comparisons are signed. It is a \<open>64 word\<close>,
  compared through \<open>sint\<close> (\<open><s\<close>, \<open>\<le>s\<close>). The length of a slice or map is read as
  the natural number it is.
\<close>

type_synonym go_int = "64 word"

text \<open>The builtins \<open>min\<close> and \<open>max\<close> on \<open>int\<close> compare signed values.\<close>

definition go_min :: "go_int \<Rightarrow> go_int \<Rightarrow> go_int" where
  "go_min a b = (if a <s b then a else b)"

definition go_max :: "go_int \<Rightarrow> go_int \<Rightarrow> go_int" where
  "go_max a b = (if a <s b then b else a)"

text \<open>
  A run-time panic ends the call without a result. The kinds that table.go can raise:
  a method call on the nil interface value that a map lookup of a missing key returns,
  an index or slice bound out of range, an integer division by zero, and \<open>make\<close> with
  a negative capacity.
\<close>

datatype panic = NilDereference | IndexOutOfRange | DivideByZero | MakeSliceCap

text \<open>The error values declared at the top of table.go.\<close>

datatype error =
    ErrMaxPlayers | ErrGameStarted | ErrGameNotStarted | ErrNotEnoughCards
  | ErrNotYourTurn | ErrPlayerIsFold | ErrCantCheck | ErrCantRaise
  | ErrNotEnoughMoney | ErrUnexpectedAction | ErrPlayerNotFound

text \<open>Sequencing of steps that may panic.\<close>

definition pbind :: "panic + 'a \<Rightarrow> ('a \<Rightarrow> panic + 'b) \<Rightarrow> panic + 'b" where
  "pbind m f = (case m of Inl p \<Rightarrow> Inl p | Inr x \<Rightarrow> f x)"

text \<open>
  Sequencing of steps that may panic or, below a loop without a bound, not return
  (\<open>None\<close>).
\<close>

definition obind ::
  "(panic + 'a) option \<Rightarrow> ('a \<Rightarrow> (panic + 'b) option) \<Rightarrow> (panic + 'b) option" where
  "obind m f = (case m of None \<Rightarrow> None | Some (Inl p) \<Rightarrow> Some (Inl p) | Some (Inr x) \<Rightarrow> f x)"

text \<open>\<open>xs[i]\<close> for a Go \<open>int\<close> index.\<close>

definition index_at :: "'a list \<Rightarrow> go_int \<Rightarrow> panic + 'a" where
  "index_at xs i =
     (if 0 \<le> sint i \<and> sint i < int (length xs) then Inr (xs ! nat (sint i))
      else Inl IndexOutOfRange)"

text \<open>
  \<open>a % len(xs)\<close>: Go's remainder truncates towards zero (the sign of the dividend), and
  a zero divisor panics.
\<close>

definition rem_len :: "go_int \<Rightarrow> 'a list \<Rightarrow> panic + go_int" where
  "rem_len a xs =
     (if length xs = 0 then Inl DivideByZero
      else Inr (word_of_int (sint a smod int (length xs))))"

text \<open>\<open>a / len(xs)\<close>: truncating division, a zero divisor panics.\<close>

definition div_len :: "go_int \<Rightarrow> 'a list \<Rightarrow> panic + go_int" where
  "div_len a xs =
     (if length xs = 0 then Inl DivideByZero
      else Inr (word_of_int (sint a sdiv int (length xs))))"

text \<open>\<open>slices.Index\<close>: the first position of a value, or \<open>-1\<close>.\<close>

fun slices_Index :: "'a list \<Rightarrow> 'a \<Rightarrow> int" where
  "slices_Index [] x = - 1"
| "slices_Index (y # ys) x =
     (if y = x then 0
      else (let i = slices_Index ys x in if i < 0 then - 1 else i + 1))"

section \<open>Data model\<close>

text \<open>
  Modelled from the spec: the player behind the \<open>IPlayer\<close> interface, whose
  implementation is not part of table.go. The spec gives it an identifier, a balance, a
  hand, a fold flag, a ready flag and the last bet of the round, read by the \<open>Get\<close>
  methods and written by \<open>ChangeBalance\<close> (which adds a delta), \<open>SetFold\<close>,
  \<open>SetStatus\<close>, \<open>SetLastBet\<close> and \<open>SetHand\<close>. The type of cards \<open>'c\<close> is left open:
  table.go only moves cards around.
\<close>

record 'c player =
  GetId :: string
  GetBalance :: go_int
  GetHand :: "'c list"
  GetFold :: bool
  GetReadyStatus :: bool
  GetLastBet :: go_int

definition ChangeBalance :: "go_int \<Rightarrow> 'c player \<Rightarrow> 'c player" where
  "ChangeBalance d p = p\<lparr>GetBalance := GetBalance p + d\<rparr>"

definition SetFold :: "bool \<Rightarrow> 'c player \<Rightarrow> 'c player" where
  "SetFold b p = p\<lparr>GetFold := b\<rparr>"

definition SetStatus :: "bool \<Rightarrow> 'c player \<Rightarrow> 'c player" where
  "SetStatus b p = p\<lparr>GetReadyStatus := b\<rparr>"

definition SetLastBet :: "go_int \<Rightarrow> 'c player \<Rightarrow> 'c player" where
  "SetLastBet v p = p\<lparr>GetLastBet := v\<rparr>"

definition SetHand :: "'c list \<Rightarrow> 'c player \<Rightarrow> 'c player" where
  "SetHand h p = p\<lparr>GetHand := h\<rparr>"

text \<open>The fields of \<open>Pot\<close> that table.go reads and writes.\<close>

record pot =
  Amount :: go_int
  Applicants :: "string list"

text \<open>
  \<open>TableConfig\<close> without its two time fields, which no operation of table.go reads.
\<close>

record TableConfig =
  MaxPlayers :: go_int
  MinPlayers :: go_int
  EnterAfterStart :: bool
  BankAmount :: go_int

text \<open>
  \<open>TableMeta\<close>. A Go map from identifiers to players is an association list with one
  entry per key: \<open>map_of\<close> looks a key up, \<open>AList.update\<close> stores, \<open>AList.delete\<close>
  deletes, and a \<open>range\<close> loop visits the entries in list order (Go leaves the order
  open). A player object is identified with its value: the table reaches a player only
  through the map entry of its identifier.
\<close>

record 'c TableMeta =
  SmallBlind :: go_int
  Ante :: go_int
  DealerIndex :: go_int
  PlayerTurnInd :: go_int
  CurrentBet :: go_int
  CommunityCards :: "'c list"
  PlayersOrder :: "string list"
  Players :: "(string \<times> 'c player) list"
  Query :: "(string \<times> 'c player) list"
  Pots :: "pot list"
  Deck :: "'c list"
  CurrentRound :: go_int
  GameStarted :: bool
  Seed :: go_int

text \<open>
  \<open>PokerTable\<close> without the observers and the mutex: notifications carry text only and
  the mutex is never locked. Where a notification indexes a slice, the bounds check is
  kept.
\<close>

record 'c PokerTable =
  Config :: TableConfig
  Meta :: "'c TableMeta"

definition NewTableConfig :: "go_int \<Rightarrow> go_int \<Rightarrow> go_int \<Rightarrow> bool \<Rightarrow> TableConfig" where
  "NewTableConfig maxPlayers minPlayers bankAmount enterAfteStart =
     \<lparr>MaxPlayers = maxPlayers, MinPlayers = minPlayers, EnterAfterStart = enterAfteStart,
      BankAmount = bankAmount\<rparr>"

definition NewTableMeta :: "go_int \<Rightarrow> go_int \<Rightarrow> go_int \<Rightarrow> 'c TableMeta" where
  "NewTableMeta smallBlind ante seed =
     \<lparr>SmallBlind = smallBlind, Ante = ante, DealerIndex = 0, PlayerTurnInd = 0, CurrentBet = 0,
      CommunityCards = [], PlayersOrder = [], Players = [], Query = [], Pots = [], Deck = [],
      CurrentRound = - 1, GameStarted = False, Seed = seed\<rparr>"

definition NewPokerTable :: "TableConfig \<Rightarrow> 'c TableMeta \<Rightarrow> 'c PokerTable" where
  "NewPokerTable config meta = \<lparr>Config = config, Meta = meta\<rparr>"

text \<open>
  What table.go calls and does not define, as parameters:
  \<^item> \<open>GetStandardDeck\<close>, the deck before shuffling;
  \<^item> \<open>rand_Shuffle seed deck\<close>, the deck after \<open>Shuffle\<close> of the generator
    \<open>rand.New(rand.NewSource(seed))\<close> has swapped its cards;
  \<^item> \<open>rand_Int63 seed k\<close>, the value of the \<open>k\<close>-th call of \<open>Int63\<close> on that generator;
  \<^item> \<open>CreatePots\<close>, the pots built from the seated players;
  \<^item> \<open>DeterminateWinner\<close>, the identifiers of the winners among the candidates.
\<close>

record 'c env =
  GetStandardDeck :: "'c list"
  rand_Shuffle :: "go_int \<Rightarrow> 'c list \<Rightarrow> 'c list"
  rand_Int63 :: "go_int \<Rightarrow> nat \<Rightarrow> go_int"
  CreatePots :: "(string \<times> 'c player) list \<Rightarrow> pot list"
  DeterminateWinner :: "'c list \<Rightarrow> (string \<times> 'c player) list \<Rightarrow> string list"

text \<open>
  \<open>t.Meta.Players[k]\<close> followed by a method call: a missing key gives the nil interface
  value, and the call panics.
\<close>

definition get_player :: "'c PokerTable \<Rightarrow> string \<Rightarrow> panic + 'c player" where
  "get_player t k =
     (case map_of (Players (Meta t)) k of None \<Rightarrow> Inl NilDereference | Some p \<Rightarrow> Inr p)"

text \<open>\<open>t.Meta.Players[k].Set...(v)\<close>: the player stored under \<open>k\<close> is changed in place.\<close>

definition set_player ::
  "string \<Rightarrow> ('c player \<Rightarrow> 'c player) \<Rightarrow> 'c PokerTable \<Rightarrow> panic + 'c PokerTable" where
  "set_player k f t =
     pbind (get_player t k) (\<lambda>p.
       Inr (t\<lparr>Meta := (Meta t)\<lparr>Players := AList.update k (f p) (Players (Meta t))\<rparr>\<rparr>))"

section \<open>Deck\<close>

text \<open>
  \<open>(*rand.Rand).Shuffle(n, swap)\<close> of the Go library draws one number from the
  generator for each position from \<open>n - 1\<close> down to \<open>1\<close>. On the nil generator the
  first draw dereferences nil; for \<open>n < 2\<close> nothing is drawn.
\<close>

definition Shuffle :: "'c env \<Rightarrow> go_int option \<Rightarrow> 'c list \<Rightarrow> panic + 'c list" where
  "Shuffle e r deck =
     (case r of
        None \<Rightarrow> if length deck < 2 then Inr deck else Inl NilDereference
      | Some seed \<Rightarrow> Inr (rand_Shuffle e seed deck))"

definition refreshDeck :: "'c env \<Rightarrow> 'c TableMeta \<Rightarrow> panic + 'c TableMeta" where
  "refreshDeck e m =
     (let m1 = m\<lparr>Deck := GetStandardDeck e\<rparr>;
          r = (if Seed m1 \<noteq> 0 then Some (Seed m1) else None)
      in pbind (Shuffle e r (Deck m1)) (\<lambda>d. Inr (m1\<lparr>Deck := d\<rparr>)))"

text \<open>
  \<open>drawCard\<close> returns the cards, the error and the table. \<open>make([]Card, 0, n)\<close> panics
  for a negative \<open>n\<close>.
\<close>

definition drawCard ::
  "'c PokerTable \<Rightarrow> go_int \<Rightarrow> panic + ('c list \<times> error option \<times> 'c PokerTable)" where
  "drawCard t n =
     (if n <s 0 then Inl MakeSliceCap
      else if int (length (Deck (Meta t))) < sint n then Inr ([], Some ErrNotEnoughCards, t)
      else Inr (take (nat (sint n)) (Deck (Meta t)), None,
                t\<lparr>Meta := (Meta t)\<lparr>Deck := drop (nat (sint n)) (Deck (Meta t))\<rparr>\<rparr>))"

text \<open>
  \<open>updateSeed\<close> draws from the generator until a value is not zero. The loop has no
  bound: \<open>None\<close> is the run that never leaves it.
\<close>

partial_function (option) firstNonZero :: "(nat \<Rightarrow> go_int) \<Rightarrow> nat \<Rightarrow> go_int option" where
  "firstNonZero draws k =
     (if draws k = 0 then firstNonZero draws (Suc k) else Some (draws k))"

declare firstNonZero.simps [code]

definition updateSeed :: "'c env \<Rightarrow> 'c TableMeta \<Rightarrow> 'c TableMeta option" where
  "updateSeed e m =
     (if Seed m \<noteq> 0
      then (case firstNonZero (rand_Int63 e (Seed m)) 0 of
              None \<Rightarrow> None
            | Some newSeed \<Rightarrow> Some (m\<lparr>Seed := newSeed\<rparr>))
      else Some m)"

section \<open>Seating\<close>

definition addPlayerInGame :: "'c TableMeta \<Rightarrow> 'c player \<Rightarrow> 'c TableMeta" where
  "addPlayerInGame m p = m\<lparr>Players := AList.update (GetId p) p (Players m)\<rparr>"

definition addPlayerInQuery :: "'c TableMeta \<Rightarrow> 'c player \<Rightarrow> 'c TableMeta" where
  "addPlayerInQuery m p = m\<lparr>Query := AList.update (GetId p) p (Query m)\<rparr>"

definition AddPlayer :: "'c PokerTable \<Rightarrow> 'c player \<Rightarrow> error option \<times> 'c PokerTable" where
  "AddPlayer t p =
     (if GameStarted (Meta t) \<and> \<not> EnterAfterStart (Config t) then (Some ErrGameStarted, t)
      else if sint (MaxPlayers (Config t))
                \<le> int (length (Players (Meta t))) + int (length (Query (Meta t))) + 1
      then (Some ErrMaxPlayers, t)
      else if GameStarted (Meta t) then (None, t\<lparr>Meta := addPlayerInQuery (Meta t) p\<rparr>)
      else (let m = addPlayerInGame (Meta t) p
            in (None, t\<lparr>Meta := m\<lparr>PlayersOrder := PlayersOrder m @ [GetId p]\<rparr>\<rparr>)))"

text \<open>The loop of \<open>enterPlayersFromQuery\<close> over the entries of \<open>Query\<close>.\<close>

fun enterLoop :: "(string \<times> 'c player) list \<Rightarrow> 'c TableMeta \<Rightarrow> 'c TableMeta" where
  "enterLoop [] m = m"
| "enterLoop ((k, v) # q) m =
     enterLoop q (m\<lparr>Players := AList.update k v (Players m),
                    PlayersOrder := PlayersOrder m @ [k]\<rparr>)"

definition enterPlayersFromQuery :: "'c PokerTable \<Rightarrow> 'c PokerTable" where
  "enterPlayersFromQuery t = t\<lparr>Meta := enterLoop (Query (Meta t)) (Meta t)\<rparr>"

text \<open>
  \<open>RemovePlayer\<close>: \<open>PlayersOrder[:ind]\<close> panics when \<open>slices.Index\<close> has returned
  \<open>-1\<close>.
\<close>

definition RemovePlayer ::
  "'c PokerTable \<Rightarrow> string \<Rightarrow> panic + (error option \<times> 'c PokerTable)" where
  "RemovePlayer t playerId =
     (let ok1 = (map_of (Players (Meta t)) playerId \<noteq> None);
          ok2 = (map_of (Query (Meta t)) playerId \<noteq> None)
      in if \<not> (ok1 \<or> ok2) then Inr (Some ErrPlayerNotFound, t)
         else if ok2
         then Inr (None, t\<lparr>Meta := (Meta t)\<lparr>Query := AList.delete playerId (Query (Meta t))\<rparr>\<rparr>)
         else (let m = (Meta t)\<lparr>Players := AList.delete playerId (Players (Meta t))\<rparr>;
                   ind = slices_Index (PlayersOrder m) playerId
               in if ind < 0 then Inl IndexOutOfRange
                  else Inr (None, t\<lparr>Meta := m\<lparr>PlayersOrder :=
                         take (nat ind) (PlayersOrder m) @ drop (nat ind + 1) (PlayersOrder m)\<rparr>\<rparr>)))"

section \<open>Pots, ante and blinds\<close>

definition createPots :: "'c env \<Rightarrow> 'c PokerTable \<Rightarrow> error option \<times> 'c PokerTable" where
  "createPots e t =
     (if \<not> GameStarted (Meta t) then (Some ErrGameNotStarted, t)
      else (None, t\<lparr>Meta := (Meta t)\<lparr>Pots :=
              Pots (Meta t) @ CreatePots e (Players (Meta t))\<rparr>\<rparr>))"

definition refreshPlayers ::
  "(string \<times> 'c player) list \<Rightarrow> bool \<Rightarrow> (string \<times> 'c player) list" where
  "refreshPlayers players fold' =
     map (\<lambda>(k, v). (k, SetStatus False (SetLastBet 0 (if fold' then SetFold False v else v))))
       players"

text \<open>The second loop of \<open>betAnte\<close>; the error of \<open>RemovePlayer\<close> is dropped.\<close>

fun removeLoop :: "'c PokerTable \<Rightarrow> string list \<Rightarrow> panic + 'c PokerTable" where
  "removeLoop t [] = Inr t"
| "removeLoop t (i # ids) = pbind (RemovePlayer t i) (\<lambda>(err, t'). removeLoop t' ids)"

definition betAnte :: "'c PokerTable \<Rightarrow> panic + (error option \<times> 'c PokerTable)" where
  "betAnte t =
     (if \<not> GameStarted (Meta t) then Inr (Some ErrGameNotStarted, t)
      else (let toRemove = map fst (filter (\<lambda>(k, v). GetBalance v <s Ante (Meta t))
                                      (Players (Meta t)))
            in pbind (removeLoop t toRemove) (\<lambda>t1.
                 Inr (None, t1\<lparr>Meta := (Meta t1)\<lparr>Pots := Pots (Meta t1) @
                        [\<lparr>Amount = Ante (Meta t1) * of_nat (length (Players (Meta t1))),
                          Applicants = PlayersOrder (Meta t1)\<rparr>]\<rparr>\<rparr>))))"

text \<open>The seats that post the small and the big blind, as \<open>betBlinds\<close> picks them.\<close>

definition blindPlayers :: "'c PokerTable \<Rightarrow> panic + (string \<times> string)" where
  "blindPlayers t =
     (if 2 < length (PlayersOrder (Meta t))
      then pbind (rem_len (DealerIndex (Meta t) + 1) (PlayersOrder (Meta t))) (\<lambda>i.
           pbind (index_at (PlayersOrder (Meta t)) i) (\<lambda>smallBlindPlayer.
           pbind (rem_len (DealerIndex (Meta t) + 2) (PlayersOrder (Meta t))) (\<lambda>j.
           pbind (index_at (PlayersOrder (Meta t)) j) (\<lambda>bigBlindPlayer.
             Inr (smallBlindPlayer, bigBlindPlayer)))))
      else pbind (index_at (PlayersOrder (Meta t)) (DealerIndex (Meta t))) (\<lambda>smallBlindPlayer.
           pbind (rem_len (DealerIndex (Meta t) + 1) (PlayersOrder (Meta t))) (\<lambda>j.
           pbind (index_at (PlayersOrder (Meta t)) j) (\<lambda>bigBlindPlayer.
             Inr (smallBlindPlayer, bigBlindPlayer)))))"

definition betBlinds :: "'c PokerTable \<Rightarrow> panic + (error option \<times> 'c PokerTable)" where
  "betBlinds t =
     (if \<not> GameStarted (Meta t) then Inr (Some ErrGameNotStarted, t)
      else
        pbind (blindPlayers t) (\<lambda>(smallBlindPlayer, bigBlindPlayer).
        pbind (get_player t smallBlindPlayer) (\<lambda>p.
        let smallBlindPlayerBet = go_min (SmallBlind (Meta t)) (GetBalance p) in
        pbind (set_player smallBlindPlayer (ChangeBalance (- smallBlindPlayerBet)) t) (\<lambda>t1.
        pbind (set_player smallBlindPlayer (SetLastBet smallBlindPlayerBet) t1) (\<lambda>t2.
        pbind (get_player t2 bigBlindPlayer) (\<lambda>q.
        let bigBlindPlayerBet = go_min (SmallBlind (Meta t2) * 2) (GetBalance q) in
        pbind (set_player bigBlindPlayer (ChangeBalance (- bigBlindPlayerBet)) t2) (\<lambda>t3.
        pbind (set_player bigBlindPlayer (SetLastBet bigBlindPlayerBet) t3) (\<lambda>t4.
        Inr (None, t4\<lparr>Meta := (Meta t4)\<lparr>CurrentBet :=
               go_max bigBlindPlayerBet smallBlindPlayerBet\<rparr>\<rparr>)))))))))"

section \<open>Turns\<close>

text \<open>
  The loop of \<open>getNextPlayer\<close> over \<open>i = 1, ..., len(PlayersOrder) - 1\<close>, given as the
  list of the values of \<open>i\<close> still to try.
\<close>

fun getNextPlayerLoop :: "'c PokerTable \<Rightarrow> nat list \<Rightarrow> panic + 'c PokerTable" where
  "getNextPlayerLoop t [] = Inr t"
| "getNextPlayerLoop t (i # rest) =
     pbind (rem_len (PlayerTurnInd (Meta t) + of_nat i) (PlayersOrder (Meta t))) (\<lambda>nextIndex.
     pbind (index_at (PlayersOrder (Meta t)) nextIndex) (\<lambda>nextPlayer.
     pbind (get_player t nextPlayer) (\<lambda>p.
       if \<not> GetFold p \<and> \<not> GetReadyStatus p
       then Inr (t\<lparr>Meta := (Meta t)\<lparr>PlayerTurnInd := nextIndex\<rparr>\<rparr>)
       else getNextPlayerLoop t rest)))"

definition getNextPlayer :: "'c PokerTable \<Rightarrow> panic + 'c PokerTable" where
  "getNextPlayer t = getNextPlayerLoop t [1 ..< length (PlayersOrder (Meta t))]"

definition choiceDealer :: "'c PokerTable \<Rightarrow> panic + (error option \<times> 'c PokerTable)" where
  "choiceDealer t =
     (if \<not> GameStarted (Meta t) then Inr (Some ErrGameNotStarted, t)
      else pbind (rem_len (DealerIndex (Meta t) + 1) (PlayersOrder (Meta t))) (\<lambda>d.
           pbind (index_at (PlayersOrder (Meta t)) d) (\<lambda>dealer.
             Inr (None, t\<lparr>Meta := (Meta t)\<lparr>DealerIndex := d\<rparr>\<rparr>))))"

definition choiceFirstMovePlayer ::
  "'c PokerTable \<Rightarrow> panic + (error option \<times> 'c PokerTable)" where
  "choiceFirstMovePlayer t =
     (if \<not> GameStarted (Meta t) then Inr (Some ErrGameNotStarted, t)
      else if CurrentRound (Meta t) = 0
      then pbind (rem_len (DealerIndex (Meta t) + 3) (PlayersOrder (Meta t))) (\<lambda>i.
             Inr (None, t\<lparr>Meta := (Meta t)\<lparr>PlayerTurnInd := i\<rparr>\<rparr>))
      else pbind (rem_len (DealerIndex (Meta t) + 1) (PlayersOrder (Meta t))) (\<lambda>i.
             Inr (None, t\<lparr>Meta := (Meta t)\<lparr>PlayerTurnInd := i\<rparr>\<rparr>)))"

definition notifyNext :: "'c PokerTable \<Rightarrow> panic + (error option \<times> 'c PokerTable)" where
  "notifyNext t =
     (if \<not> GameStarted (Meta t) then Inr (Some ErrGameNotStarted, t)
      else pbind (index_at (PlayersOrder (Meta t)) (PlayerTurnInd (Meta t))) (\<lambda>pId.
             Inr (None, t)))"

text \<open>The loop of \<open>checkReady\<close> over the seated players.\<close>

fun checkReadyLoop :: "(string \<times> 'c player) list \<Rightarrow> bool" where
  "checkReadyLoop [] = True"
| "checkReadyLoop ((k, v) # ps) =
     (if (\<not> GetFold v \<and> \<not> GetReadyStatus v) \<or> GetBalance v = 0 then False
      else checkReadyLoop ps)"

definition checkReady :: "'c PokerTable \<Rightarrow> bool" where
  "checkReady t = (if \<not> GameStarted (Meta t) then False else checkReadyLoop (Players (Meta t)))"

section \<open>Betting actions\<close>

definition handleCheck ::
  "'c PokerTable \<Rightarrow> string \<Rightarrow> panic + (error option \<times> 'c PokerTable)" where
  "handleCheck t playerId =
     (if \<not> GameStarted (Meta t) then Inr (Some ErrGameNotStarted, t)
      else pbind (get_player t playerId) (\<lambda>p.
        if GetFold p then Inr (Some ErrPlayerIsFold, t)
        else if CurrentBet (Meta t) \<noteq> 0 then Inr (Some ErrCantCheck, t)
        else pbind (set_player playerId (SetStatus True) t) (\<lambda>t1. Inr (None, t1))))"

definition handleFold ::
  "'c PokerTable \<Rightarrow> string \<Rightarrow> panic + (error option \<times> 'c PokerTable)" where
  "handleFold t playerId =
     (if \<not> GameStarted (Meta t) then Inr (Some ErrGameNotStarted, t)
      else pbind (set_player playerId (SetStatus True) t) (\<lambda>t1.
           pbind (set_player playerId (SetFold True) t1) (\<lambda>t2. Inr (None, t2))))"

definition resetPlayersStatus :: "'c PokerTable \<Rightarrow> error option \<times> 'c PokerTable" where
  "resetPlayersStatus t =
     (if \<not> GameStarted (Meta t) then (Some ErrGameNotStarted, t)
      else (None, t\<lparr>Meta := (Meta t)\<lparr>Players :=
              map (\<lambda>(k, v). if \<not> GetFold v then (k, SetStatus False v) else (k, v))
                (Players (Meta t))\<rparr>\<rparr>))"

definition handleRaise ::
  "'c PokerTable \<Rightarrow> string \<Rightarrow> go_int \<Rightarrow> panic + (error option \<times> 'c PokerTable)" where
  "handleRaise t playerId amount =
     (if \<not> GameStarted (Meta t) then Inr (Some ErrGameNotStarted, t)
      else pbind (get_player t playerId) (\<lambda>p.
        if GetFold p then Inr (Some ErrPlayerIsFold, t)
        else if \<not> (CurrentBet (Meta t) * 2 <s amount \<and> GetLastBet p <s amount \<and> 0 <s amount)
        then Inr (Some ErrCantRaise, t)
        else (let delta = amount - GetLastBet p
              in if GetBalance p <s delta then Inr (Some ErrNotEnoughMoney, t)
                 else (let t1 = snd (resetPlayersStatus t) in
                   pbind (set_player playerId (SetLastBet amount) t1) (\<lambda>t2.
                   pbind (set_player playerId (ChangeBalance (- delta)) t2) (\<lambda>t3.
                   pbind (set_player playerId (SetStatus True) t3) (\<lambda>t4.
                   Inr (None, t4\<lparr>Meta := (Meta t4)\<lparr>CurrentBet := amount\<rparr>\<rparr>))))))))"

definition handleCall ::
  "'c PokerTable \<Rightarrow> string \<Rightarrow> panic + (error option \<times> 'c PokerTable)" where
  "handleCall t playerId =
     (if \<not> GameStarted (Meta t) then Inr (Some ErrGameNotStarted, t)
      else if CurrentBet (Meta t) = 0 then handleCheck t playerId
      else pbind (get_player t playerId) (\<lambda>p.
        if GetFold p then Inr (Some ErrPlayerIsFold, t)
        else (let needToBet = CurrentBet (Meta t) - GetLastBet p;
                  possibleBet = go_min needToBet (GetBalance p)
              in pbind (set_player playerId (ChangeBalance (- possibleBet)) t) (\<lambda>t1.
                 pbind (set_player playerId (SetStatus True) t1) (\<lambda>t2.
                 pbind (get_player t2 playerId) (\<lambda>p2.
                 pbind (if 0 <s GetBalance p2
                        then set_player playerId (SetLastBet (CurrentBet (Meta t2))) t2
                        else set_player playerId (SetLastBet possibleBet) t2) (\<lambda>t3.
                 Inr (None, t3))))))))"

section \<open>Settlement\<close>

text \<open>
  The first inner loop of \<open>PayMoney\<close>: the applicants of a pot that have not folded,
  as a map from identifier to player.
\<close>

fun collectApplicants ::
  "'c PokerTable \<Rightarrow> string list \<Rightarrow> (string \<times> 'c player) list
     \<Rightarrow> panic + (string \<times> 'c player) list" where
  "collectApplicants t [] applicants = Inr applicants"
| "collectApplicants t (k # ks) applicants =
     pbind (get_player t k) (\<lambda>p.
       if GetFold p then collectApplicants t ks applicants
       else collectApplicants t ks (AList.update k p applicants))"

text \<open>The loop that credits every winner with \<open>winAmount\<close>.\<close>

fun payWinners :: "'c PokerTable \<Rightarrow> string list \<Rightarrow> go_int \<Rightarrow> panic + 'c PokerTable" where
  "payWinners t [] winAmount = Inr t"
| "payWinners t (winner # ws) winAmount =
     pbind (set_player winner (ChangeBalance winAmount) t) (\<lambda>t1. payWinners t1 ws winAmount)"

text \<open>
  The loop \<open>for i := 1; counter > 0; i++\<close> that hands out the remainder one chip at a
  time. It has no bound on \<open>i\<close>: \<open>None\<close> is the run that never leaves it.
\<close>

partial_function (option) payRemainder ::
  "'c PokerTable \<Rightarrow> string list \<Rightarrow> go_int \<Rightarrow> go_int \<Rightarrow> (panic + 'c PokerTable) option" where
  "payRemainder t winners i counter =
     (if \<not> 0 <s counter then Some (Inr t)
      else (case rem_len (DealerIndex (Meta t) + i) (Players (Meta t)) of
              Inl x \<Rightarrow> Some (Inl x)
            | Inr j \<Rightarrow>
               (case index_at (PlayersOrder (Meta t)) j of
                  Inl x \<Rightarrow> Some (Inl x)
                | Inr targetPlayer \<Rightarrow>
                   (case get_player t targetPlayer of
                      Inl x \<Rightarrow> Some (Inl x)
                    | Inr p \<Rightarrow>
                       if GetFold p \<or> GetId p \<notin> set winners
                       then payRemainder t winners (i + 1) counter
                       else (case set_player targetPlayer (ChangeBalance 1) t of
                               Inl x \<Rightarrow> Some (Inl x)
                             | Inr t1 \<Rightarrow> payRemainder t1 winners (i + 1) (counter - 1))))))"

declare payRemainder.simps [code]

text \<open>The outer loop of \<open>PayMoney\<close> over the pots.\<close>

fun payPots :: "'c env \<Rightarrow> 'c PokerTable \<Rightarrow> pot list \<Rightarrow> (panic + 'c PokerTable) option" where
  "payPots e t [] = Some (Inr t)"
| "payPots e t (pot # pots) =
     obind (Some (collectApplicants t (Applicants pot) [])) (\<lambda>applicants.
     let winners = DeterminateWinner e (CommunityCards (Meta t)) applicants in
     obind (Some (div_len (Amount pot) winners)) (\<lambda>winAmount.
     obind (Some (payWinners t winners winAmount)) (\<lambda>t1.
       if winAmount * of_nat (length winners) = Amount pot then payPots e t1 pots
       else (let counter = Amount pot - winAmount * of_nat (length winners)
             in obind (payRemainder t1 winners 1 counter) (\<lambda>t2. payPots e t2 pots)))))"

definition PayMoney :: "'c env \<Rightarrow> 'c PokerTable \<Rightarrow> (panic + 'c PokerTable) option" where
  "PayMoney e t = payPots e t (Pots (Meta t))"

section \<open>Rounds\<close>

text \<open>
  The dealing loop of round 0. The error of \<open>drawCard\<close> is dropped; \<open>cards[0]\<close> and
  \<open>cards[1]\<close> panic on the empty slice that a failed draw returns.
\<close>

fun dealLoop :: "'c PokerTable \<Rightarrow> string list \<Rightarrow> panic + 'c PokerTable" where
  "dealLoop t [] = Inr t"
| "dealLoop t (k # ks) =
     pbind (drawCard t 2) (\<lambda>(cards, err, t1).
       if length cards < 2 then Inl IndexOutOfRange
       else pbind (set_player k (SetHand [cards ! 0, cards ! 1]) t1) (\<lambda>t2. dealLoop t2 ks))"

text \<open>The \<open>switch\<close> of \<open>NewRound\<close> on the round just entered.\<close>

definition roundSwitch :: "'c env \<Rightarrow> 'c PokerTable \<Rightarrow> (panic + 'c PokerTable) option" where
  "roundSwitch e t =
     (if CurrentRound (Meta t) = 0 then
        Some (let t1 = enterPlayersFromQuery t in
              pbind (betAnte t1) (\<lambda>(err, t2).
              pbind (dealLoop t2 (PlayersOrder (Meta t2))) (\<lambda>t3.
              pbind (choiceDealer t3) (\<lambda>(err, t4).
              pbind (betBlinds t4) (\<lambda>(err, t5). Inr t5)))))
      else if CurrentRound (Meta t) = 1 then
        Some (pbind (drawCard t 3) (\<lambda>(cards, err, t1).
              let t2 = t1\<lparr>Meta := (Meta t1)\<lparr>CommunityCards := cards\<rparr>\<rparr> in
              pbind (rem_len (DealerIndex (Meta t2) + 1) (PlayersOrder (Meta t2))) (\<lambda>i.
                Inr (t2\<lparr>Meta := (Meta t2)\<lparr>PlayerTurnInd := i\<rparr>\<rparr>))))
      else if CurrentRound (Meta t) = 2 \<or> CurrentRound (Meta t) = 3 then
        Some (pbind (drawCard t 1) (\<lambda>(cards, err, t1).
                Inr (t1\<lparr>Meta := (Meta t1)\<lparr>CommunityCards :=
                       CommunityCards (Meta t1) @ cards\<rparr>\<rparr>)))
      else if CurrentRound (Meta t) = 4 then
        obind (PayMoney e t) (\<lambda>t1.
          case updateSeed e (Meta t1) of
            None \<Rightarrow> None
          | Some m \<Rightarrow> Some (Inr (t1\<lparr>Meta := m\<lparr>GameStarted := False, CurrentRound := - 1,
                                               Pots := []\<rparr>\<rparr>)))
      else Some (Inr t))"

definition NewRound ::
  "'c env \<Rightarrow> 'c PokerTable \<Rightarrow> (panic + (error option \<times> 'c PokerTable)) option" where
  "NewRound e t =
     (if \<not> GameStarted (Meta t) then Some (Inr (Some ErrGameNotStarted, t))
      else (let t1 = snd (createPots e t);
                t2 = t1\<lparr>Meta := (Meta t1)\<lparr>CurrentRound := CurrentRound (Meta t1) + 1,
                                            CurrentBet := 0\<rparr>\<rparr>;
                t3 = t2\<lparr>Meta := (Meta t2)\<lparr>Players :=
                       refreshPlayers (Players (Meta t2)) (CurrentRound (Meta t2) = 4)\<rparr>\<rparr>
            in obind (roundSwitch e t3) (\<lambda>t4.
                 Some (pbind (choiceFirstMovePlayer t4) (\<lambda>(err, t5). Inr (None, t5))))))"

definition StartGame ::
  "'c env \<Rightarrow> 'c PokerTable \<Rightarrow> (panic + (error option \<times> 'c PokerTable)) option" where
  "StartGame e t =
     (if GameStarted (Meta t) then Some (Inr (Some ErrGameStarted, t))
      else (let m = (Meta t)\<lparr>GameStarted := True, CurrentRound := - 1\<rparr>
            in obind (Some (refreshDeck e m)) (\<lambda>m1.
               obind (NewRound e (t\<lparr>Meta := m1\<rparr>)) (\<lambda>(err, t1). Some (Inr (None, t1))))))"

section \<open>Moves\<close>

text \<open>
  The \<open>switch\<close> of \<open>MakeMove\<close> on the action: \<open>None\<close> is the \<open>default\<close> branch. The
  error a handler returns is dropped by \<open>MakeMove\<close>; the table it leaves is kept.
\<close>

definition dispatch ::
  "'c PokerTable \<Rightarrow> string \<Rightarrow> string \<Rightarrow> go_int
     \<Rightarrow> (panic + (error option \<times> 'c PokerTable)) option" where
  "dispatch t playerId action amount =
     (if action = ''check'' then Some (handleCheck t playerId)
      else if action = ''raise'' then Some (handleRaise t playerId amount)
      else if action = ''call'' then Some (handleCall t playerId)
      else if action = ''fold'' then Some (handleFold t playerId)
      else None)"

definition MakeMove ::
  "'c env \<Rightarrow> 'c PokerTable \<Rightarrow> string \<Rightarrow> string \<Rightarrow> go_int
     \<Rightarrow> (panic + (error option \<times> 'c PokerTable)) option" where
  "MakeMove e t playerId action amount =
     (if \<not> GameStarted (Meta t) then Some (Inr (Some ErrGameNotStarted, t))
      else obind (Some (index_at (PlayersOrder (Meta t)) (PlayerTurnInd (Meta t)))) (\<lambda>turn.
        if turn \<noteq> playerId then Some (Inr (Some ErrNotYourTurn, t))
        else obind (Some (get_player t playerId)) (\<lambda>p.
          if GetFold p then Some (Inr (Some ErrPlayerIsFold, t))
          else (case dispatch t playerId action amount of
                  None \<Rightarrow> Some (Inr (Some ErrUnexpectedAction, t))
                | Some handled \<Rightarrow>
                    obind (Some handled) (\<lambda>(err, t1).
                    obind (Some (set_player playerId (SetStatus True) t1)) (\<lambda>t2.
                    obind (Some (getNextPlayer t2)) (\<lambda>t3.
                      if checkReady t3
                      then obind (NewRound e t3) (\<lambda>(err, t4). Some (Inr (None, t4)))
                      else obind (Some (notifyNext t3)) (\<lambda>(err, t4).
                             Some (Inr (None, t4))))))))))"

section \<open>Observations\<close>

text \<open>
  The chips on the table: the balances of the seated players, the bets they have made in
  the round that is running (\<open>lastBet\<close>), and the amounts of the pots. Sums are sums of
  Go \<open>int\<close> values.
\<close>

definition balances :: "'c PokerTable \<Rightarrow> go_int" where
  "balances t = sum_list (map (\<lambda>(k, v). GetBalance v) (Players (Meta t)))"

definition roundBets :: "'c PokerTable \<Rightarrow> go_int" where
  "roundBets t = sum_list (map (\<lambda>(k, v). GetLastBet v) (Players (Meta t)))"

definition potTotal :: "'c PokerTable \<Rightarrow> go_int" where
  "potTotal t = sum_list (map Amount (Pots (Meta t)))"

definition chips :: "'c PokerTable \<Rightarrow> go_int" where
  "chips t = balances t + roundBets t + potTotal t"

text \<open>What a seated player holds, by identifier.\<close>

definition balance_of :: "'c PokerTable \<Rightarrow> string \<Rightarrow> go_int option" where
  "balance_of t k = map_option GetBalance (map_of (Players (Meta t)) k)"

definition lastBet_of :: "'c PokerTable \<Rightarrow> string \<Rightarrow> go_int option" where
  "lastBet_of t k = map_option GetLastBet (map_of (Players (Meta t)) k)"

text \<open>The player whose turn it is, and the dealer.\<close>

definition turnPlayer :: "'c PokerTable \<Rightarrow> panic + string" where
  "turnPlayer t = index_at (PlayersOrder (Meta t)) (PlayerTurnInd (Meta t))"

definition dealerPlayer :: "'c PokerTable \<Rightarrow> panic + string" where
  "dealerPlayer t = index_at (PlayersOrder (Meta t)) (DealerIndex (Meta t))"

text \<open>
  A sequence of calls on one table: the next call is made on the table the previous one
  left, provided that one returned without an error.
\<close>

definition after ::
  "(panic + (error option \<times> 'c PokerTable)) option
     \<Rightarrow> ('c PokerTable \<Rightarrow> (panic + (error option \<times> 'c PokerTable)) option)
     \<Rightarrow> (panic + (error option \<times> 'c PokerTable)) option" where
  "after r f =
     obind r (\<lambda>(err, t). case err of None \<Rightarrow> f t | Some x \<Rightarrow> Some (Inr (Some x, t)))"

section \<open>Scenarios\<close>

text \<open>
  Modelled from the spec: a player who sits down with a balance, no cards, not folded,
  not ready and no bet.
\<close>

definition new_player :: "string \<Rightarrow> go_int \<Rightarrow> 'c player" where
  "new_player i b = \<lparr>GetId = i, GetBalance = b, GetHand = [], GetFold = False,
                     GetReadyStatus = False, GetLastBet = 0\<rparr>"

text \<open>Two players with 100 chips each at a new table with small blind 5 and ante 0.\<close>

definition heads_up :: "TableConfig \<Rightarrow> go_int \<Rightarrow> string \<Rightarrow> string \<Rightarrow> 'c PokerTable" where
  "heads_up config seed a b =
     snd (AddPlayer (snd (AddPlayer (NewPokerTable config (NewTableMeta 5 0 seed))
                            (new_player a 100)))
            (new_player b 100))"

text \<open>
  Collaborators for the scenarios, with cards numbered from 0 to 51: the shuffle
  reverses the deck, the generator counts up from the seed, \<open>CreatePots\<close> puts the bets
  of the round into one pot for the players who have not folded, and the hand evaluator
  declares a tie of all candidates.
\<close>

definition example_env :: "nat env" where
  "example_env =
     \<lparr>GetStandardDeck = [0 ..< 52],
      rand_Shuffle = (\<lambda>seed deck. rev deck),
      rand_Int63 = (\<lambda>seed k. seed + of_nat k + 1),
      CreatePots = (\<lambda>players.
        [\<lparr>Amount = sum_list (map (\<lambda>(k, v). GetLastBet v) players),
          Applicants = map fst (filter (\<lambda>(k, v). \<not> GetFold v) players)\<rparr>]),
      DeterminateWinner = (\<lambda>communityCards candidates. map fst candidates)\<rparr>"

definition example_config :: TableConfig where
  "example_config = NewTableConfig 10 2 0 True"

text \<open>A table seating the given players in order, before \<open>StartGame\<close>.\<close>

definition seated ::
  "TableConfig \<Rightarrow> go_int \<Rightarrow> go_int \<Rightarrow> go_int \<Rightarrow> 'c player list \<Rightarrow> 'c PokerTable" where
  "seated config smallBlind ante seed ps =
     foldl (\<lambda>t p. snd (AddPlayer t p))
       (NewPokerTable config (NewTableMeta smallBlind ante seed)) ps"

text \<open>The calls a client makes on the table, and a run of such calls.\<close>

datatype 'c call =
    CallStartGame
  | CallAddPlayer "'c player"
  | CallMakeMove string string go_int

fun perform ::
  "'c env \<Rightarrow> 'c call \<Rightarrow> 'c PokerTable \<Rightarrow> (panic + (error option \<times> 'c PokerTable)) option" where
  "perform e CallStartGame t = StartGame e t"
| "perform e (CallAddPlayer p) t = Some (Inr (AddPlayer t p))"
| "perform e (CallMakeMove playerId action amount) t = MakeMove e t playerId action amount"

definition run ::
  "'c env \<Rightarrow> 'c PokerTable \<Rightarrow> 'c call list
     \<Rightarrow> (panic + (error option \<times> 'c PokerTable)) option" where
  "run e t calls = foldl (\<lambda>r c. after r (perform e c)) (Some (Inr (None, t))) calls"

text \<open>What a run returned, with an observation of the table it left.\<close>

definition observe ::
  "(panic + (error option \<times> 'c PokerTable)) option \<Rightarrow> ('c PokerTable \<Rightarrow> 'a)
     \<Rightarrow> (panic + (error option \<times> 'a)) option" where
  "observe r f = obind r (\<lambda>(err, t). Some (Inr (err, f t)))"

text \<open>The heads-up table of the scenarios, and the table \<open>StartGame\<close> leaves.\<close>

definition example_heads_up :: "nat PokerTable" where
  "example_heads_up = heads_up example_config 7 ''a'' ''b''"

definition example_started :: "nat PokerTable" where
  "example_started =
     \<lparr>Config = example_config,
      Meta = \<lparr>SmallBlind = 5, Ante = 0, DealerIndex = 1, PlayerTurnInd = 0, CurrentBet = 10,
        CommunityCards = [], PlayersOrder = [''a'', ''b''],
        Players =
          [(''a'', \<lparr>GetId = ''a'', GetBalance = 90, GetHand = [51, 50], GetFold = False,
                    GetReadyStatus = False, GetLastBet = 10\<rparr>),
           (''b'', \<lparr>GetId = ''b'', GetBalance = 95, GetHand = [49, 48], GetFold = False,
                    GetReadyStatus = False, GetLastBet = 5\<rparr>)],
        Query = [],
        Pots = [\<lparr>Amount = 0, Applicants = [''a'', ''b'']\<rparr>,
                \<lparr>Amount = 0, Applicants = [''a'', ''b'']\<rparr>],
        Deck = rev [0 ..< 48], CurrentRound = 0, GameStarted = True, Seed = 7\<rparr>\<rparr>"


text \<open>
  Heads-up where the second player sits down with 10 chips: the small blind and the call
  take all of them.
\<close>

definition short_stack :: "nat PokerTable" where
  "short_stack = seated example_config 5 0 7 [new_player ''a'' 100, new_player ''b'' 10]"

definition short_stack_all_in :: "nat PokerTable" where
  "short_stack_all_in =
     \<lparr>Config = example_config,
      Meta = \<lparr>SmallBlind = 5, Ante = 0, DealerIndex = 1, PlayerTurnInd = 1, CurrentBet = 10,
        CommunityCards = [], PlayersOrder = [''a'', ''b''],
        Players =
          [(''a'', \<lparr>GetId = ''a'', GetBalance = 90, GetHand = [51, 50], GetFold = False,
                    GetReadyStatus = True, GetLastBet = 10\<rparr>),
           (''b'', \<lparr>GetId = ''b'', GetBalance = 0, GetHand = [49, 48], GetFold = False,
                    GetReadyStatus = True, GetLastBet = 5\<rparr>)],
        Query = [],
        Pots = [\<lparr>Amount = 0, Applicants = [''a'', ''b'']\<rparr>,
                \<lparr>Amount = 0, Applicants = [''a'', ''b'']\<rparr>],
        Deck = rev [0 ..< 48], CurrentRound = 0, GameStarted = True, Seed = 7\<rparr>\<rparr>"

text \<open>Heads-up with an ante of 2.\<close>

definition ante_table :: "nat PokerTable" where
  "ante_table = seated example_config 5 2 7 [new_player ''a'' 100, new_player ''b'' 100]"

text \<open>A table for two: \<open>MaxPlayers = 2\<close>, one player seated.\<close>

definition table_for_two :: "nat PokerTable" where
  "table_for_two = seated (NewTableConfig 2 2 0 False) 5 0 7 [new_player ''a'' 100]"

text \<open>
  The identifiers \<open>PayMoney\<close> hands to the hand evaluator for a pot, on a given table.
\<close>

definition candidates :: "'c PokerTable \<Rightarrow> pot \<Rightarrow> panic + string list" where
  "candidates t pot =
     pbind (collectApplicants t (Applicants pot) []) (\<lambda>applicants. Inr (map fst applicants))"

text \<open>The table \<open>StartGame\<close> leaves in the heads-up scenario, for any collaborators.\<close>

definition hu_started ::
  "TableConfig \<Rightarrow> go_int \<Rightarrow> string \<Rightarrow> string \<Rightarrow> 'c list \<Rightarrow> 'c list \<Rightarrow> 'c list \<Rightarrow> pot list \<Rightarrow> 'c PokerTable" where
  "hu_started config seed a b ha hb d pots =
     \<lparr>Config = config,
      Meta = \<lparr>SmallBlind = 5, Ante = 0, DealerIndex = 1, PlayerTurnInd = 0, CurrentBet = 10,
        CommunityCards = [], PlayersOrder = [a, b],
        Players = [(a, \<lparr>GetId = a, GetBalance = 90, GetHand = ha, GetFold = False,
                         GetReadyStatus = False, GetLastBet = 10\<rparr>),
                   (b, \<lparr>GetId = b, GetBalance = 95, GetHand = hb, GetFold = False,
                         GetReadyStatus = False, GetLastBet = 5\<rparr>)],
        Query = [], Pots = pots, Deck = d, CurrentRound = 0, GameStarted = True, Seed = seed\<rparr>\<rparr>"

text \<open>
  Tables along one hand of the heads-up scenario: before the blinds are posted, after
  a raise to 25 by the first player to move, after a call by the dealer, after a fold,
  with both players having called, on the flop, after a check on the flop, on the river
  with both players ready, and after settlement.
\<close>

definition example_dealt :: "nat PokerTable" where
  "example_dealt = example_started\<lparr>Meta := (Meta example_started)\<lparr>CurrentBet := 0,
     Players := [(''a'', \<lparr>GetId = ''a'', GetBalance = 100, GetHand = [51, 50], GetFold = False,
                          GetReadyStatus = False, GetLastBet = 0\<rparr>),
                 (''b'', \<lparr>GetId = ''b'', GetBalance = 100, GetHand = [49, 48], GetFold = False,
                          GetReadyStatus = False, GetLastBet = 0\<rparr>)]\<rparr>\<rparr>"

definition example_raised :: "nat PokerTable" where
  "example_raised = example_started\<lparr>Meta := (Meta example_started)\<lparr>CurrentBet := 25,
     Players := [(''a'', \<lparr>GetId = ''a'', GetBalance = 75, GetHand = [51, 50], GetFold = False,
                          GetReadyStatus = True, GetLastBet = 25\<rparr>),
                 (''b'', \<lparr>GetId = ''b'', GetBalance = 95, GetHand = [49, 48], GetFold = False,
                          GetReadyStatus = False, GetLastBet = 5\<rparr>)]\<rparr>\<rparr>"

definition example_dealer_called :: "nat PokerTable" where
  "example_dealer_called = example_started\<lparr>Meta := (Meta example_started)\<lparr>
     Players := [(''a'', \<lparr>GetId = ''a'', GetBalance = 90, GetHand = [51, 50], GetFold = False,
                          GetReadyStatus = False, GetLastBet = 10\<rparr>),
                 (''b'', \<lparr>GetId = ''b'', GetBalance = 90, GetHand = [49, 48], GetFold = False,
                          GetReadyStatus = True, GetLastBet = 10\<rparr>)]\<rparr>\<rparr>"

definition example_folded :: "nat PokerTable" where
  "example_folded = example_started\<lparr>Meta := (Meta example_started)\<lparr>
     Players := [(''a'', \<lparr>GetId = ''a'', GetBalance = 90, GetHand = [51, 50], GetFold = True,
                          GetReadyStatus = True, GetLastBet = 10\<rparr>),
                 (''b'', \<lparr>GetId = ''b'', GetBalance = 95, GetHand = [49, 48], GetFold = False,
                          GetReadyStatus = False, GetLastBet = 5\<rparr>)]\<rparr>\<rparr>"

definition example_called :: "nat PokerTable" where
  "example_called = example_started\<lparr>Meta := (Meta example_started)\<lparr>PlayerTurnInd := 1,
     Players := [(''a'', \<lparr>GetId = ''a'', GetBalance = 90, GetHand = [51, 50], GetFold = False,
                          GetReadyStatus = True, GetLastBet = 10\<rparr>),
                 (''b'', \<lparr>GetId = ''b'', GetBalance = 90, GetHand = [49, 48], GetFold = False,
                          GetReadyStatus = True, GetLastBet = 10\<rparr>)]\<rparr>\<rparr>"

definition example_flop :: "nat PokerTable" where
  "example_flop = example_started\<lparr>Meta := (Meta example_started)\<lparr>
     CurrentBet := 0, CommunityCards := [47, 46, 45],
     Players := [(''a'', \<lparr>GetId = ''a'', GetBalance = 90, GetHand = [51, 50], GetFold = False,
                          GetReadyStatus = False, GetLastBet = 0\<rparr>),
                 (''b'', \<lparr>GetId = ''b'', GetBalance = 90, GetHand = [49, 48], GetFold = False,
                          GetReadyStatus = False, GetLastBet = 0\<rparr>)],
     Pots := [\<lparr>Amount = 0, Applicants = [''a'', ''b'']\<rparr>, \<lparr>Amount = 0, Applicants = [''a'', ''b'']\<rparr>,
              \<lparr>Amount = 20, Applicants = [''a'', ''b'']\<rparr>],
     Deck := rev [0 ..< 45], CurrentRound := 1\<rparr>\<rparr>"

definition example_flop_checked :: "nat PokerTable" where
  "example_flop_checked = example_flop\<lparr>Meta := (Meta example_flop)\<lparr>
     Players := [(''a'', \<lparr>GetId = ''a'', GetBalance = 90, GetHand = [51, 50], GetFold = False,
                          GetReadyStatus = True, GetLastBet = 0\<rparr>),
                 (''b'', \<lparr>GetId = ''b'', GetBalance = 90, GetHand = [49, 48], GetFold = False,
                          GetReadyStatus = False, GetLastBet = 0\<rparr>)]\<rparr>\<rparr>"

definition example_river :: "nat PokerTable" where
  "example_river = example_started\<lparr>Meta := (Meta example_started)\<lparr>
     PlayerTurnInd := 1, CurrentBet := 0, CommunityCards := [47, 46, 45, 44, 43],
     Players := [(''a'', \<lparr>GetId = ''a'', GetBalance = 90, GetHand = [51, 50], GetFold = False,
                          GetReadyStatus = True, GetLastBet = 0\<rparr>),
                 (''b'', \<lparr>GetId = ''b'', GetBalance = 90, GetHand = [49, 48], GetFold = False,
                          GetReadyStatus = True, GetLastBet = 0\<rparr>)],
     Pots := [\<lparr>Amount = 0, Applicants = [''a'', ''b'']\<rparr>, \<lparr>Amount = 0, Applicants = [''a'', ''b'']\<rparr>,
              \<lparr>Amount = 20, Applicants = [''a'', ''b'']\<rparr>, \<lparr>Amount = 0, Applicants = [''a'', ''b'']\<rparr>,
              \<lparr>Amount = 0, Applicants = [''a'', ''b'']\<rparr>],
     Deck := rev [0 ..< 43], CurrentRound := 3\<rparr>\<rparr>"

definition example_settled :: "nat PokerTable" where
  "example_settled = example_started\<lparr>Meta := (Meta example_started)\<lparr>
     PlayerTurnInd := 1, CurrentBet := 0, CommunityCards := [47, 46, 45, 44, 43],
     Players := [(''a'', \<lparr>GetId = ''a'', GetBalance = 100, GetHand = [51, 50], GetFold = False,
                          GetReadyStatus = False, GetLastBet = 0\<rparr>),
                 (''b'', \<lparr>GetId = ''b'', GetBalance = 100, GetHand = [49, 48], GetFold = False,
                          GetReadyStatus = False, GetLastBet = 0\<rparr>)],
     Pots := [], Deck := rev [0 ..< 43], CurrentRound := - 1, GameStarted := False, Seed := 8\<rparr>\<rparr>"

text \<open>
  A first hand of the heads-up scenario during which a third player asks to join, and a
  second hand with the three of them; every player calls before the flop and checks
  after it.
\<close>

definition first_hand_with_join :: "nat call list" where
  "first_hand_with_join =
     [CallStartGame, CallAddPlayer (new_player ''c'' 100),
      CallMakeMove ''a'' ''call'' 0, CallMakeMove ''b'' ''call'' 0,
      CallMakeMove ''a'' ''check'' 0, CallMakeMove ''b'' ''check'' 0,
      CallMakeMove ''a'' ''check'' 0, CallMakeMove ''b'' ''check'' 0,
      CallMakeMove ''a'' ''check'' 0, CallMakeMove ''b'' ''check'' 0]"

definition second_hand :: "nat call list" where
  "second_hand =
     [CallStartGame,
      CallMakeMove ''c'' ''call'' 0, CallMakeMove ''a'' ''call'' 0, CallMakeMove ''b'' ''call'' 0,
      CallMakeMove ''a'' ''check'' 0, CallMakeMove ''b'' ''check'' 0, CallMakeMove ''c'' ''check'' 0,
      CallMakeMove ''a'' ''check'' 0, CallMakeMove ''b'' ''check'' 0, CallMakeMove ''c'' ''check'' 0,
      CallMakeMove ''a'' ''check'' 0, CallMakeMove ''b'' ''check'' 0, CallMakeMove ''c'' ''check'' 0]"

section \<open>Quantities used in the proofs\<close>

text \<open>What a player has: the balance and the bet of the round that is running.\<close>

definition stake :: "'c player \<Rightarrow> go_int" where
  "stake p = GetBalance p + GetLastBet p"

text \<open>
  \<open>paid t t' x\<close>: table \<open>t'\<close> is table \<open>t\<close> after \<open>x\<close> chips have been added to the
  balances, with the same players, bets and dealer.
\<close>

definition paid :: "'c PokerTable \<Rightarrow> 'c PokerTable \<Rightarrow> go_int \<Rightarrow> bool" where
  "paid t t' x \<longleftrightarrow>
     balances t' = balances t + x \<and> roundBets t' = roundBets t
     \<and> map fst (Players (Meta t')) = map fst (Players (Meta t))
     \<and> DealerIndex (Meta t') = DealerIndex (Meta t)"

section \<open>Lemmas on chips\<close>

lemma sum_update:
  fixes f :: "'v \<Rightarrow> go_int"
  assumes "distinct (map fst ps)" "map_of ps k = Some p"
  shows "sum_list (map (\<lambda>(k, v). f v) (AList.update k p' ps)) =
           sum_list (map (\<lambda>(k, v). f v) ps) - f p + f p'"
  using assms
proof (induction ps)
  case Nil
  then show ?case by simp
next
  case (Cons x ps)
  obtain k0 v0 where x: "x = (k0, v0)" by (cases x)
  show ?case
  proof (cases "k0 = k")
    case True
    with Cons.prems x show ?thesis by simp
  next
    case False
    with Cons x show ?thesis by simp
  qed
qed

lemma sum_stake:
  "sum_list (map (\<lambda>(k, v). stake v) ps) =
     sum_list (map (\<lambda>(k, v). GetBalance v) ps) + sum_list (map (\<lambda>(k, v). GetLastBet v) ps)"
  by (induction ps) (auto simp: stake_def)

lemma chips_stake:
  "chips t = sum_list (map (\<lambda>(k, v). stake v) (Players (Meta t))) + potTotal t"
  by (simp add: chips_def balances_def roundBets_def sum_stake)

lemma chips_update:
  assumes "distinct (map fst (Players (Meta t)))" "map_of (Players (Meta t)) k = Some p"
    "stake p' = stake p"
  shows "chips (t\<lparr>Meta := (Meta t)\<lparr>Players := AList.update k p' (Players (Meta t))\<rparr>\<rparr>) = chips t"
  using assms by (simp add: chips_stake sum_update [where f = stake] potTotal_def)

lemma handleCheck_chips:
  assumes d: "distinct (map fst (Players (Meta t)))" and r: "handleCheck t playerId = Inr (err, t')"
  shows "chips t' = chips t"
proof (cases "map_of (Players (Meta t)) playerId")
  case None
  with r show ?thesis
    by (simp add: handleCheck_def get_player_def pbind_def split: if_splits)
next
  case (Some p)
  have "chips (t\<lparr>Meta := (Meta t)\<lparr>Players :=
          AList.update playerId (SetStatus True p) (Players (Meta t))\<rparr>\<rparr>) = chips t"
    using d Some by (rule chips_update) (simp add: stake_def SetStatus_def)
  with r Some show ?thesis
    by (auto simp: handleCheck_def get_player_def set_player_def pbind_def split: if_splits)
qed

lemma handleFold_chips:
  assumes d: "distinct (map fst (Players (Meta t)))" and r: "handleFold t playerId = Inr (err, t')"
  shows "chips t' = chips t"
proof (cases "map_of (Players (Meta t)) playerId")
  case None
  with r show ?thesis
    by (simp add: handleFold_def get_player_def set_player_def pbind_def split: if_splits)
next
  case (Some p)
  have "chips (t\<lparr>Meta := (Meta t)\<lparr>Players :=
          AList.update playerId (SetFold True (SetStatus True p)) (Players (Meta t))\<rparr>\<rparr>) = chips t"
    using d Some by (rule chips_update) (simp add: stake_def SetStatus_def SetFold_def)
  with r Some show ?thesis
    by (auto simp: handleFold_def get_player_def set_player_def pbind_def update_conv'
        split: if_splits)
qed


lemma map_of_reset:
  "map_of (map (\<lambda>(k, v). if \<not> GetFold v then (k, SetStatus False v) else (k, v)) ps) k =
     map_option (\<lambda>v. if \<not> GetFold v then SetStatus False v else v) (map_of ps k)"
  by (induction ps) (auto simp: SetStatus_def)

lemma keys_reset:
  "map fst (map (\<lambda>(k, v). if \<not> GetFold v then (k, SetStatus False v) else (k, v)) ps) =
     map fst ps"
  by (induction ps) auto

lemma stake_reset:
  "sum_list (map (\<lambda>(k, v). stake v)
      (map (\<lambda>(k, v). if \<not> GetFold v then (k, SetStatus False v) else (k, v)) ps)) =
   sum_list (map (\<lambda>(k, v). stake v) ps)"
  by (induction ps) (auto simp: stake_def SetStatus_def)

lemma debit_eq: "b + (l - a) = b - (a - l)" for a b l :: go_int
  by simp

lemma handleRaise_result:
  assumes "handleRaise t playerId amount = Inr (err, t')"
  shows "t' = t \<or> (\<exists>p. map_of (Players (Meta t)) playerId = Some p \<and>
           t' = t\<lparr>Meta := (Meta t)\<lparr>Players := AList.update playerId
                  (p\<lparr>GetLastBet := amount,
                     GetBalance := GetBalance p - (amount - GetLastBet p),
                     GetReadyStatus := True\<rparr>)
                  (map (\<lambda>(k, v). if \<not> GetFold v then (k, SetStatus False v) else (k, v))
                     (Players (Meta t))),
                CurrentBet := amount\<rparr>\<rparr>)"
proof (cases "map_of (Players (Meta t)) playerId")
  case None
  with assms show ?thesis
    by (simp add: handleRaise_def get_player_def pbind_def split: if_splits)
next
  case (Some p)
  with assms show ?thesis
    by (auto simp: handleRaise_def get_player_def pbind_def resetPlayersStatus_def
        set_player_def Let_def map_of_reset update_conv' SetStatus_def SetLastBet_def
        ChangeBalance_def debit_eq split: if_splits)
qed

lemma handleRaise_chips:
  assumes d: "distinct (map fst (Players (Meta t)))"
    and r: "handleRaise t playerId amount = Inr (err, t')"
  shows "chips t' = chips t"
proof -
  from handleRaise_result [OF r] consider "t' = t"
    | p where "map_of (Players (Meta t)) playerId = Some p"
        "t' = t\<lparr>Meta := (Meta t)\<lparr>Players := AList.update playerId
                  (p\<lparr>GetLastBet := amount,
                     GetBalance := GetBalance p - (amount - GetLastBet p),
                     GetReadyStatus := True\<rparr>)
                  (map (\<lambda>(k, v). if \<not> GetFold v then (k, SetStatus False v) else (k, v))
                     (Players (Meta t))),
                CurrentBet := amount\<rparr>\<rparr>"
    by blast
  then show ?thesis
  proof cases
    case 1
    then show ?thesis by simp
  next
    case (2 p)
    let ?ps = "map (\<lambda>(k, v). if \<not> GetFold v then (k, SetStatus False v) else (k, v))
                 (Players (Meta t))"
    let ?p0 = "if \<not> GetFold p then SetStatus False p else p"
    let ?p' = "p\<lparr>GetLastBet := amount, GetBalance := GetBalance p - (amount - GetLastBet p),
                 GetReadyStatus := True\<rparr>"
    have d': "distinct (map fst ?ps)"
      using d by (simp only: keys_reset)
    have m: "map_of ?ps playerId = Some ?p0"
      using 2(1) by (simp add: map_of_reset)
    have "sum_list (map (\<lambda>(k, v). stake v) (AList.update playerId ?p' ?ps)) =
            sum_list (map (\<lambda>(k, v). stake v) ?ps) - stake ?p0 + stake ?p'"
      using d' m by (rule sum_update)
    also have "\<dots> = sum_list (map (\<lambda>(k, v). stake v) (Players (Meta t)))"
    proof -
      have "stake ?p' = stake ?p0"
        by (simp add: stake_def SetStatus_def)
      then show ?thesis
        by (simp only: stake_reset) simp
    qed
    finally show ?thesis
      using 2(2) by (simp add: chips_stake potTotal_def)
  qed
qed

lemma handleCall_result:
  assumes "handleCall t playerId = Inr (err, t')" "CurrentBet (Meta t) \<noteq> 0"
  shows "t' = t \<or> (\<exists>p. map_of (Players (Meta t)) playerId = Some p \<and>
           t' = t\<lparr>Meta := (Meta t)\<lparr>Players := AList.update playerId
                  (p\<lparr>GetBalance :=
                       GetBalance p - go_min (CurrentBet (Meta t) - GetLastBet p) (GetBalance p),
                     GetReadyStatus := True,
                     GetLastBet :=
                       (if 0 <s GetBalance p
                                  - go_min (CurrentBet (Meta t) - GetLastBet p) (GetBalance p)
                        then CurrentBet (Meta t)
                        else go_min (CurrentBet (Meta t) - GetLastBet p) (GetBalance p))\<rparr>)
                  (Players (Meta t))\<rparr>\<rparr>)"
proof (cases "map_of (Players (Meta t)) playerId")
  case None
  with assms show ?thesis
    by (simp add: handleCall_def get_player_def pbind_def split: if_splits)
next
  case (Some p)
  with assms show ?thesis
    by (auto simp: handleCall_def get_player_def pbind_def set_player_def Let_def
        update_conv' SetStatus_def SetLastBet_def ChangeBalance_def split: if_splits)
qed

lemma handleCall_chips:
  assumes d: "distinct (map fst (Players (Meta t)))"
    and r: "handleCall t playerId = Inr (err, t')"
    and p: "get_player t playerId = Inr p" and p': "get_player t' playerId = Inr p'"
    and c: "GetLastBet p = 0 \<or> 0 <s GetBalance p'"
  shows "chips t' = chips t"
proof (cases "CurrentBet (Meta t) = 0")
  case True
  with r have "handleCheck t playerId = Inr (err, t')"
    by (cases "GameStarted (Meta t)") (simp_all add: handleCall_def handleCheck_def)
  with d show ?thesis by (rule handleCheck_chips)
next
  case False
  from p have mp: "map_of (Players (Meta t)) playerId = Some p"
    by (simp add: get_player_def split: option.splits)
  let ?bet = "go_min (CurrentBet (Meta t) - GetLastBet p) (GetBalance p)"
  let ?q = "p\<lparr>GetBalance := GetBalance p - ?bet, GetReadyStatus := True,
              GetLastBet := (if 0 <s GetBalance p - ?bet then CurrentBet (Meta t) else ?bet)\<rparr>"
  from handleCall_result [OF r False] mp
  consider "t' = t" | "t' = t\<lparr>Meta := (Meta t)\<lparr>Players :=
      AList.update playerId ?q (Players (Meta t))\<rparr>\<rparr>"
    by auto
  then show ?thesis
  proof cases
    case 1
    then show ?thesis by simp
  next
    case 2
    with p' have q: "p' = ?q"
      by (simp add: get_player_def update_conv')
    have "stake ?q = stake p"
    proof (cases "0 <s GetBalance p - ?bet")
      case True
      then have "?bet \<noteq> GetBalance p"
        by auto
      then have "?bet = CurrentBet (Meta t) - GetLastBet p"
        by (simp add: go_min_def split: if_splits)
      with True show ?thesis
        by (simp add: stake_def)
    next
      case False
      with c q have "GetLastBet p = 0"
        by simp
      with False show ?thesis
        by (simp add: stake_def)
    qed
    with d mp have "chips (t\<lparr>Meta := (Meta t)\<lparr>Players :=
        AList.update playerId ?q (Players (Meta t))\<rparr>\<rparr>) = chips t"
      by (intro chips_update)
    with 2 show ?thesis by simp
  qed
qed


lemma betBlinds_result:
  assumes r: "betBlinds t = Inr (err, t')"
    and bp: "blindPlayers t = Inr (sb, bb)" and ne: "sb \<noteq> bb"
    and p: "get_player t sb = Inr p" and q: "get_player t bb = Inr q"
  shows "t' = t \<or>
    t' = t\<lparr>Meta := (Meta t)\<lparr>Players :=
            AList.update bb
              (q\<lparr>GetBalance := GetBalance q - go_min (SmallBlind (Meta t) * 2) (GetBalance q),
                 GetLastBet := go_min (SmallBlind (Meta t) * 2) (GetBalance q)\<rparr>)
              (AList.update sb
                 (p\<lparr>GetBalance := GetBalance p - go_min (SmallBlind (Meta t)) (GetBalance p),
                    GetLastBet := go_min (SmallBlind (Meta t)) (GetBalance p)\<rparr>)
                 (Players (Meta t))),
          CurrentBet := go_max (go_min (SmallBlind (Meta t) * 2) (GetBalance q))
                               (go_min (SmallBlind (Meta t)) (GetBalance p))\<rparr>\<rparr>"
proof -
  from p have mp: "map_of (Players (Meta t)) sb = Some p"
    by (simp add: get_player_def split: option.splits)
  from q have mq: "map_of (Players (Meta t)) bb = Some q"
    by (simp add: get_player_def split: option.splits)
  from r bp ne mp mq ne [symmetric] show ?thesis
    by (auto simp: betBlinds_def pbind_def get_player_def set_player_def Let_def update_conv'
        ChangeBalance_def SetLastBet_def split: if_splits)
qed

lemma betBlinds_chips:
  assumes d: "distinct (map fst (Players (Meta t)))"
    and r: "betBlinds t = Inr (err, t')"
    and bp: "blindPlayers t = Inr (sb, bb)" and ne: "sb \<noteq> bb"
    and p: "get_player t sb = Inr p" and q: "get_player t bb = Inr q"
    and zero: "GetLastBet p = 0" "GetLastBet q = 0"
  shows "chips t' = chips t"
proof -
  from p have mp: "map_of (Players (Meta t)) sb = Some p"
    by (simp add: get_player_def split: option.splits)
  from q have mq: "map_of (Players (Meta t)) bb = Some q"
    by (simp add: get_player_def split: option.splits)
  let ?p' = "p\<lparr>GetBalance := GetBalance p - go_min (SmallBlind (Meta t)) (GetBalance p),
               GetLastBet := go_min (SmallBlind (Meta t)) (GetBalance p)\<rparr>"
  let ?q' = "q\<lparr>GetBalance := GetBalance q - go_min (SmallBlind (Meta t) * 2) (GetBalance q),
               GetLastBet := go_min (SmallBlind (Meta t) * 2) (GetBalance q)\<rparr>"
  let ?t1 = "t\<lparr>Meta := (Meta t)\<lparr>Players := AList.update sb ?p' (Players (Meta t))\<rparr>\<rparr>"
  let ?t2 = "?t1\<lparr>Meta := (Meta ?t1)\<lparr>Players := AList.update bb ?q' (Players (Meta ?t1))\<rparr>\<rparr>"
  have "stake ?p' = stake p"
    using zero(1) by (simp add: stake_def)
  with d mp have c1: "chips ?t1 = chips t"
    by (intro chips_update)
  have d1: "distinct (map fst (Players (Meta ?t1)))"
    using d by (simp add: distinct_update)
  have m1: "map_of (Players (Meta ?t1)) bb = Some q"
    using mq ne by (simp add: update_conv')
  have "stake ?q' = stake q"
    using zero(2) by (simp add: stake_def)
  with d1 m1 have c2: "chips ?t2 = chips ?t1"
    by (intro chips_update)
  from betBlinds_result [OF r bp ne p q] show ?thesis
  proof
    assume "t' = t"
    then show ?thesis by simp
  next
    assume "t' = t\<lparr>Meta := (Meta t)\<lparr>Players := AList.update bb ?q' (AList.update sb ?p'
                 (Players (Meta t))),
          CurrentBet := go_max (go_min (SmallBlind (Meta t) * 2) (GetBalance q))
                               (go_min (SmallBlind (Meta t)) (GetBalance p))\<rparr>\<rparr>"
    then have "chips t' = chips ?t2"
      by (simp add: chips_def balances_def roundBets_def potTotal_def)
    with c1 c2 show ?thesis by simp
  qed
qed

lemma refreshPlayers_sums:
  "sum_list (map (\<lambda>(k, v). GetBalance v) (refreshPlayers ps f)) =
     sum_list (map (\<lambda>(k, v). GetBalance v) ps)"
  "sum_list (map (\<lambda>(k, v). GetLastBet v) (refreshPlayers ps f)) = 0"
  "map fst (refreshPlayers ps f) = map fst ps"
  by (induction ps)
     (auto simp: refreshPlayers_def SetStatus_def SetLastBet_def SetFold_def)

lemma NewRound_betting_round:
  assumes r: "NewRound e t = Some (Inr (err, t'))"
    and rd: "CurrentRound (Meta t) = 0 \<or> CurrentRound (Meta t) = 1 \<or> CurrentRound (Meta t) = 2"
  shows "t' = t \<or>
         (Players (Meta t') = refreshPlayers (Players (Meta t)) False
          \<and> Pots (Meta t') = Pots (Meta t) @ CreatePots e (Players (Meta t)))"
  using rd
proof (elim disjE)
  assume "CurrentRound (Meta t) = 0"
  with r show ?thesis
    by (auto simp: NewRound_def createPots_def roundSwitch_def drawCard_def obind_def pbind_def
        Let_def rem_len_def choiceFirstMovePlayer_def word_sless_alt
        split: if_splits sum.splits)
next
  assume "CurrentRound (Meta t) = 1"
  with r show ?thesis
    by (auto simp: NewRound_def createPots_def roundSwitch_def drawCard_def obind_def pbind_def
        Let_def rem_len_def choiceFirstMovePlayer_def word_sless_alt
        split: if_splits sum.splits)
next
  assume "CurrentRound (Meta t) = 2"
  with r show ?thesis
    by (auto simp: NewRound_def createPots_def roundSwitch_def drawCard_def obind_def pbind_def
        Let_def rem_len_def choiceFirstMovePlayer_def word_sless_alt
        split: if_splits sum.splits)
qed

lemma NewRound_betting_round_chips:
  assumes r: "NewRound e t = Some (Inr (err, t'))"
    and rd: "CurrentRound (Meta t) = 0 \<or> CurrentRound (Meta t) = 1 \<or> CurrentRound (Meta t) = 2"
    and cp: "sum_list (map Amount (CreatePots e (Players (Meta t)))) = roundBets t"
  shows "chips t' = chips t"
  using NewRound_betting_round [OF r rd]
proof
  assume "t' = t"
  then show ?thesis by simp
next
  assume "Players (Meta t') = refreshPlayers (Players (Meta t)) False
          \<and> Pots (Meta t') = Pots (Meta t) @ CreatePots e (Players (Meta t))"
  with cp show ?thesis
    by (simp add: chips_def balances_def roundBets_def potTotal_def refreshPlayers_sums)
qed

lemma paid_refl: "paid t t 0"
  by (simp add: paid_def)

lemma paid_trans: "paid t t1 x \<Longrightarrow> paid t1 t2 y \<Longrightarrow> paid t t2 (x + y)"
  by (simp add: paid_def)

lemma keys_update_present:
  "map_of ps k = Some p \<Longrightarrow> map fst (AList.update k p' ps) = map fst ps"
  by (induction ps) (auto split: if_splits)

lemma set_player_paid:
  assumes d: "distinct (map fst (Players (Meta t)))"
    and r: "set_player k (ChangeBalance x) t = Inr t1"
  shows "paid t t1 x"
proof (cases "map_of (Players (Meta t)) k")
  case None
  with r show ?thesis
    by (simp add: set_player_def get_player_def pbind_def)
next
  case (Some p)
  with r have t1: "t1 = t\<lparr>Meta := (Meta t)\<lparr>Players :=
      AList.update k (ChangeBalance x p) (Players (Meta t))\<rparr>\<rparr>"
    by (simp add: set_player_def get_player_def pbind_def)
  show ?thesis
    using d Some
    by (simp add: paid_def t1 balances_def roundBets_def sum_update keys_update_present
        ChangeBalance_def)
qed

lemma paid_distinct:
  "paid t t1 x \<Longrightarrow> distinct (map fst (Players (Meta t))) \<Longrightarrow>
     distinct (map fst (Players (Meta t1)))"
  by (simp add: paid_def)

lemma payWinners_paid:
  assumes "distinct (map fst (Players (Meta t)))" "payWinners t ws a = Inr t1"
  shows "paid t t1 (a * of_nat (length ws))"
  using assms
proof (induction ws arbitrary: t)
  case Nil
  then show ?case by (simp add: paid_refl)
next
  case (Cons w ws)
  from Cons.prems(2) obtain t0 where
    t0: "set_player w (ChangeBalance a) t = Inr t0" and rest: "payWinners t0 ws a = Inr t1"
    by (auto simp: pbind_def split: sum.splits)
  from set_player_paid [OF Cons.prems(1) t0] have p0: "paid t t0 a" .
  from paid_distinct [OF p0 Cons.prems(1)] rest have "paid t0 t1 (a * of_nat (length ws))"
    by (rule Cons.IH)
  from paid_trans [OF p0 this] show ?case
    by (simp add: algebra_simps)
qed

lemma sint_pred_nonneg:
  fixes c :: go_int
  assumes "0 <s c"
  shows "0 \<le> sint (c - 1)"
proof -
  from assms have pos: "0 < sint c"
    by (simp add: word_sless_alt)
  have "sint c < 2 ^ 63"
    using sint_lt [of c] by simp
  with pos have "signed_take_bit 63 (sint c - 1) = sint c - 1"
    by (intro signed_take_bit_int_eq_self) auto
  then have "sint (c - 1) = sint c - 1"
    by (simp add: sint_word_ariths)
  with pos show ?thesis by simp
qed

lemma not_pos_zero:
  fixes c :: go_int
  assumes "\<not> 0 <s c" "0 \<le> sint c"
  shows "c = 0"
proof -
  from assms have "sint c = 0"
    by (simp add: word_sless_alt)
  then have "(word_of_int (sint c) :: go_int) = word_of_int 0"
    by simp
  then show ?thesis
    by simp
qed

lemma payRemainder_paid:
  fixes t :: "'a PokerTable"
  assumes r: "payRemainder t ws i c = Some (Inr t1)"
    and d: "distinct (map fst (Players (Meta t)))"
    and c: "0 \<le> sint c"
  shows "paid t t1 c"
proof -
  have "\<forall>t'. (Inr t1 :: panic + 'a PokerTable) = Inr t' \<longrightarrow>
          distinct (map fst (Players (Meta t))) \<longrightarrow> 0 \<le> sint c \<longrightarrow> paid t t' c"
  proof (rule payRemainder.raw_induct [where P = "\<lambda>t ws i c y.
      \<forall>t1. y = Inr t1 \<longrightarrow> distinct (map fst (Players (Meta t))) \<longrightarrow> 0 \<le> sint c \<longrightarrow>
             paid t t1 c", OF _ r], goal_cases)
    case (1 payRemainder' t ws i c y)
    show ?case
    proof (intro allI impI)
      fix t1
      assume y: "y = Inr t1" and d: "distinct (map fst (Players (Meta t)))" and c: "0 \<le> sint c"
      show "paid t t1 c"
      proof (cases "0 <s c")
        case False
        with 1(2) y have "t1 = t"
          by simp
        moreover from False c have "c = 0"
          by (rule not_pos_zero)
        ultimately show ?thesis
          by (simp add: paid_refl)
      next
        case True
        with 1(2) y obtain j target p where
          j: "rem_len (DealerIndex (Meta t) + i) (Players (Meta t)) = Inr j"
          and target: "index_at (PlayersOrder (Meta t)) j = Inr target"
          and p: "get_player t target = Inr p"
          by (auto split: sum.splits)
        show ?thesis
        proof (cases "GetFold p \<or> GetId p \<notin> set ws")
          case skip: True
          with 1(2) True j target p have "payRemainder' t ws (i + 1) c = Some y"
            by simp
          from 1(1) [OF this] y d c show ?thesis
            by blast
        next
          case pay: False
          with 1(2) True j target p y obtain t0 where
            t0: "set_player target (ChangeBalance 1) t = Inr t0"
            and rest: "payRemainder' t0 ws (i + 1) (c - 1) = Some y"
            by (auto split: sum.splits)
          from set_player_paid [OF d t0] have p0: "paid t t0 1" .
          from 1(1) [OF rest] y paid_distinct [OF p0 d] sint_pred_nonneg [OF True]
          have "paid t0 t1 (c - 1)"
            by blast
          from paid_trans [OF p0 this] show ?thesis
            by simp
        qed
      qed
    qed
  qed
  with d c show ?thesis
    by blast
qed

lemma remainder_nonneg:
  fixes A :: go_int
  assumes A: "0 \<le> sint A" and w: "div_len A ws = Inr w"
  shows "0 \<le> sint (A - w * of_nat (length ws))"
proof -
  let ?n = "int (length ws)"
  from w have n: "0 < ?n" and wq: "w = word_of_int (sint A sdiv ?n)"
    by (auto simp: div_len_def split: if_splits)
  from A n have q: "sint A sdiv ?n = sint A div ?n"
    by (simp add: signed_divide_int_def sgn_if)
  have "A - w * of_nat (length ws) =
          word_of_int (sint A) - word_of_int (sint A div ?n) * word_of_int ?n"
    by (simp add: wq q)
  also have "\<dots> = word_of_int (sint A - sint A div ?n * ?n)"
    by simp
  also have "sint A - sint A div ?n * ?n = sint A mod ?n"
    by (simp add: minus_div_mult_eq_mod)
  finally have eq: "A - w * of_nat (length ws) = word_of_int (sint A mod ?n)" .
  have "sint A mod ?n \<le> sint A"
    using A n by (simp add: zmod_le_nonneg_dividend)
  moreover have "sint A < 2 ^ 63"
    using sint_lt [of A] by simp
  moreover have "0 \<le> sint A mod ?n"
    using n by simp
  ultimately have "signed_take_bit 63 (sint A mod ?n) = sint A mod ?n"
    by (intro signed_take_bit_int_eq_self) auto
  then have "sint (word_of_int (sint A mod ?n) :: go_int) = sint A mod ?n"
    by (simp add: sint_sbintrunc')
  with eq n show ?thesis
    by simp
qed

lemma payPots_paid:
  assumes "payPots e t pots = Some (Inr t1)"
    and "distinct (map fst (Players (Meta t)))"
    and "\<forall>pot \<in> set pots. 0 \<le> sint (Amount pot)"
  shows "paid t t1 (sum_list (map Amount pots))"
  using assms
proof (induction pots arbitrary: t)
  case Nil
  then show ?case by (simp add: paid_refl)
next
  case (Cons pot pots)
  let ?A = "Amount pot"
  from Cons.prems(1) obtain applicants where
    ap: "collectApplicants t (Applicants pot) [] = Inr applicants"
    by (auto simp: obind_def split: sum.splits)
  let ?ws = "DeterminateWinner e (CommunityCards (Meta t)) applicants"
  from Cons.prems(1) ap obtain w where w: "div_len ?A ?ws = Inr w"
    by (auto simp: obind_def Let_def split: sum.splits)
  from Cons.prems(1) ap w obtain t0 where t0: "payWinners t ?ws w = Inr t0"
    by (auto simp: obind_def Let_def split: sum.splits)
  from payWinners_paid [OF Cons.prems(2) t0] have p0: "paid t t0 (w * of_nat (length ?ws))" .
  from paid_distinct [OF p0 Cons.prems(2)] have d0: "distinct (map fst (Players (Meta t0)))" .
  from Cons.prems(3) have A: "0 \<le> sint ?A" and rest: "\<forall>pot \<in> set pots. 0 \<le> sint (Amount pot)"
    by simp_all
  show ?case
  proof (cases "w * of_nat (length ?ws) = ?A")
    case True
    with Cons.prems(1) ap w t0 have "payPots e t0 pots = Some (Inr t1)"
      by (simp add: obind_def Let_def)
    from Cons.IH [OF this d0 rest] have "paid t0 t1 (sum_list (map Amount pots))" .
    from paid_trans [OF p0 this] True show ?thesis
      by simp
  next
    case False
    let ?c = "?A - w * of_nat (length ?ws)"
    from False Cons.prems(1) ap w t0 obtain t2 where
      t2: "payRemainder t0 ?ws 1 ?c = Some (Inr t2)" and r2: "payPots e t2 pots = Some (Inr t1)"
      by (auto simp: obind_def Let_def split: option.splits sum.splits)
    from payRemainder_paid [OF t2 d0 remainder_nonneg [OF A w]] have p2: "paid t0 t2 ?c" .
    from paid_distinct [OF p2 d0] have d2: "distinct (map fst (Players (Meta t2)))" .
    from Cons.IH [OF r2 d2 rest] have "paid t2 t1 (sum_list (map Amount pots))" .
    from paid_trans [OF paid_trans [OF p0 p2] this] show ?thesis
      by (simp add: algebra_simps)
  qed
qed

lemma NewRound_showdown:
  assumes r: "NewRound e t = Some (Inr (err, t'))"
    and rd: "CurrentRound (Meta t) = 3" and st: "GameStarted (Meta t)"
  shows "\<exists>t4. PayMoney e (t\<lparr>Meta := (Meta t)\<lparr>
                  Pots := Pots (Meta t) @ CreatePots e (Players (Meta t)),
                  CurrentRound := 4, CurrentBet := 0,
                  Players := refreshPlayers (Players (Meta t)) True\<rparr>\<rparr>) = Some (Inr t4)
           \<and> Players (Meta t') = Players (Meta t4) \<and> Pots (Meta t') = []"
  using r rd st
  by (auto simp: NewRound_def createPots_def roundSwitch_def obind_def pbind_def Let_def
      choiceFirstMovePlayer_def updateSeed_def
      split: if_splits sum.splits option.splits)

lemma NewRound_showdown_chips:
  assumes r: "NewRound e t = Some (Inr (err, t'))"
    and rd: "CurrentRound (Meta t) = 3" and st: "GameStarted (Meta t)"
    and d: "distinct (map fst (Players (Meta t)))"
    and cp: "sum_list (map Amount (CreatePots e (Players (Meta t)))) = roundBets t"
    and nn: "\<forall>pot \<in> set (Pots (Meta t) @ CreatePots e (Players (Meta t))). 0 \<le> sint (Amount pot)"
  shows "chips t' = chips t"
proof -
  let ?t3 = "t\<lparr>Meta := (Meta t)\<lparr>
                  Pots := Pots (Meta t) @ CreatePots e (Players (Meta t)),
                  CurrentRound := 4, CurrentBet := 0,
                  Players := refreshPlayers (Players (Meta t)) True\<rparr>\<rparr>"
  from NewRound_showdown [OF r rd st] obtain t4 where
    pm: "PayMoney e ?t3 = Some (Inr t4)" and pl: "Players (Meta t') = Players (Meta t4)"
    and po: "Pots (Meta t') = []"
    by blast
  have d3: "distinct (map fst (Players (Meta ?t3)))"
    using d by (simp add: refreshPlayers_sums)
  from pm have "payPots e ?t3 (Pots (Meta t) @ CreatePots e (Players (Meta t))) = Some (Inr t4)"
    by (simp add: PayMoney_def)
  from payPots_paid [OF this d3 nn]
  have "paid ?t3 t4 (sum_list (map Amount (Pots (Meta t) @ CreatePots e (Players (Meta t)))))" .
  then have "balances t4 = balances ?t3 + (potTotal t + roundBets t)" "roundBets t4 = roundBets ?t3"
    using cp by (simp_all add: paid_def potTotal_def)
  moreover have "balances ?t3 = balances t" "roundBets ?t3 = 0"
    by (simp_all add: balances_def roundBets_def refreshPlayers_sums)
  ultimately show ?thesis
    using pl po by (simp add: chips_def balances_def roundBets_def potTotal_def)
qed

section \<open>Lemmas on the heads-up scenario\<close>

lemma heads_up_eq:
  assumes "2 < sint (MaxPlayers config)" "a \<noteq> b"
  shows "heads_up config seed a b =
     \<lparr>Config = config,
      Meta = (NewTableMeta 5 0 seed)\<lparr>PlayersOrder := [a, b],
               Players := [(a, new_player a 100), (b, new_player b 100)]\<rparr>\<rparr>"
  using assms
  by (simp add: heads_up_def AddPlayer_def NewPokerTable_def NewTableMeta_def
      addPlayerInGame_def new_player_def Let_def)

lemma start_heads_up:
  assumes mx: "2 < sint (MaxPlayers config)" and ab: "a \<noteq> b" and seed: "seed \<noteq> 0"
    and deck: "4 \<le> length (rand_Shuffle e seed (GetStandardDeck e))"
  shows "\<exists>ha hb d pots. StartGame e (heads_up config seed a b) =
           Some (Inr (None, hu_started config seed a b ha hb d pots))"
proof -
  let ?d = "rand_Shuffle e seed (GetStandardDeck e)"
  have l: "\<not> int (length ?d) < 2" "\<not> int (length ?d) - 2 < 2" "2 \<le> length ?d"
    "2 \<le> length ?d - 2"
    using deck by auto
  show ?thesis
    unfolding heads_up_eq [OF mx ab] hu_started_def
    using ab seed l ab [symmetric]
    by (simp add: StartGame_def NewTableMeta_def refreshDeck_def Shuffle_def obind_def
        pbind_def Let_def NewRound_def createPots_def refreshPlayers_def roundSwitch_def
        enterPlayersFromQuery_def betAnte_def drawCard_def set_player_def get_player_def
        choiceDealer_def rem_len_def index_at_def betBlinds_def blindPlayers_def
        choiceFirstMovePlayer_def new_player_def SetStatus_def SetLastBet_def SetHand_def
        ChangeBalance_def go_min_def go_max_def smod_int_alt_def word_sless_alt)
qed

lemma hu_dealer_call:
  assumes ab: "a \<noteq> b"
  shows "\<exists>s'. handleCall (hu_started config seed a b ha hb d pots) b = Inr (None, s')
          \<and> balance_of s' b = Some 90 \<and> lastBet_of s' a = Some 10 \<and> lastBet_of s' b = Some 10"
  using ab ab [symmetric]
  by (simp add: hu_started_def handleCall_def get_player_def set_player_def pbind_def Let_def
      ChangeBalance_def SetStatus_def SetLastBet_def go_min_def word_sless_alt balance_of_def
      lastBet_of_def)

lemma hu_first_call:
  assumes ab: "a \<noteq> b"
  shows "MakeMove e (hu_started config seed a b ha hb d pots) a ''call'' amount =
     Some (Inr (None, (hu_started config seed a b ha hb d pots)
        \<lparr>Meta := (Meta (hu_started config seed a b ha hb d pots))
           \<lparr>PlayerTurnInd := 1,
            Players := [(a, \<lparr>GetId = a, GetBalance = 90, GetHand = ha, GetFold = False,
                         GetReadyStatus = True, GetLastBet = 10\<rparr>),
                   (b, \<lparr>GetId = b, GetBalance = 95, GetHand = hb, GetFold = False,
                         GetReadyStatus = False, GetLastBet = 5\<rparr>)]\<rparr>\<rparr>))"
  using ab ab [symmetric]
  by (simp add: hu_started_def MakeMove_def dispatch_def handleCall_def get_player_def
      set_player_def pbind_def obind_def Let_def index_at_def rem_len_def getNextPlayer_def
      checkReady_def notifyNext_def
      ChangeBalance_def SetStatus_def SetLastBet_def go_min_def word_sless_alt smod_int_alt_def)


lemma hu_second_call:
  assumes ab: "a \<noteq> b"
  shows "\<exists>s2. MakeMove e ((hu_started config seed a b ha hb d pots)
        \<lparr>Meta := (Meta (hu_started config seed a b ha hb d pots))
           \<lparr>PlayerTurnInd := 1,
            Players := [(a, \<lparr>GetId = a, GetBalance = 90, GetHand = ha, GetFold = False,
                         GetReadyStatus = True, GetLastBet = 10\<rparr>),
                   (b, \<lparr>GetId = b, GetBalance = 95, GetHand = hb, GetFold = False,
                         GetReadyStatus = False, GetLastBet = 5\<rparr>)]\<rparr>\<rparr>) b ''call'' amount =
            Some (Inr (None, s2))
         \<and> CurrentRound (Meta s2) = 1
         \<and> balance_of s2 a = Some 90 \<and> balance_of s2 b = Some 90
         \<and> lastBet_of s2 a = Some 0 \<and> lastBet_of s2 b = Some 0"
proof (cases "int (length d) < 3")
  case True
  with ab ab [symmetric] show ?thesis
  by (simp add: hu_started_def MakeMove_def dispatch_def handleCall_def get_player_def
      set_player_def pbind_def obind_def Let_def index_at_def rem_len_def getNextPlayer_def
      checkReady_def NewRound_def createPots_def refreshPlayers_def roundSwitch_def
      drawCard_def choiceFirstMovePlayer_def balance_of_def lastBet_of_def
      ChangeBalance_def SetStatus_def SetLastBet_def go_min_def word_sless_alt smod_int_alt_def)
next
  case False
  with ab ab [symmetric] show ?thesis
  by (simp add: hu_started_def MakeMove_def dispatch_def handleCall_def get_player_def
      set_player_def pbind_def obind_def Let_def index_at_def rem_len_def getNextPlayer_def
      checkReady_def NewRound_def createPots_def refreshPlayers_def roundSwitch_def
      drawCard_def choiceFirstMovePlayer_def balance_of_def lastBet_of_def
      ChangeBalance_def SetStatus_def SetLastBet_def go_min_def word_sless_alt smod_int_alt_def)
qed

section \<open>Claims\<close>

text \<open>
  C1, as amended. The claim: after every operation of a hand, the balances of the seated
  players plus the amounts of the pots equal the balances at the start of the hand. The
  code keeps the chips bet in the running round in \<open>lastBet\<close> and moves them to the pots
  only when the round advances, so the quantity that the operations leave unchanged is
  balances plus bets of the round plus pots (\<open>chips\<close>, sums of Go \<open>int\<close>). With one
  map entry per seated player, it is unchanged by
  \<^item> \<open>handleCheck\<close>, \<open>handleFold\<close> and \<open>handleRaise\<close>, whatever they return;
  \<^item> \<open>handleCall\<close>, when the caller had no bet in the round or keeps a positive
    balance;
  \<^item> \<open>betBlinds\<close>, when the two blinds are posted by different players who have no bet
    in the round;
  \<^item> \<open>NewRound\<close> entering the flop, the turn or the river, when the pots that
    \<open>CreatePots\<close> returns add up to the bets of the round;
  \<^item> \<open>NewRound\<close> entering the showdown, which settles the pots, when in addition no
    pot has a negative amount.
  Nothing is said of the ante, of a call that takes the last chips of a player who has
  already bet in the round, and of hands in which players are promoted or removed.
\<close>

theorem chips_conserved_by_operations:
  assumes d: "distinct (map fst (Players (Meta t)))"
  shows "(handleCheck t playerId = Inr (err, t') \<longrightarrow> chips t' = chips t)
       \<and> (handleFold t playerId = Inr (err, t') \<longrightarrow> chips t' = chips t)
       \<and> (handleRaise t playerId amount = Inr (err, t') \<longrightarrow> chips t' = chips t)
       \<and> (handleCall t playerId = Inr (err, t')
            \<and> get_player t playerId = Inr p \<and> get_player t' playerId = Inr p'
            \<and> (GetLastBet p = 0 \<or> 0 <s GetBalance p')
            \<longrightarrow> chips t' = chips t)
       \<and> (betBlinds t = Inr (err, t')
            \<and> blindPlayers t = Inr (smallBlindPlayer, bigBlindPlayer)
            \<and> smallBlindPlayer \<noteq> bigBlindPlayer
            \<and> get_player t smallBlindPlayer = Inr p \<and> GetLastBet p = 0
            \<and> get_player t bigBlindPlayer = Inr q \<and> GetLastBet q = 0
            \<longrightarrow> chips t' = chips t)
       \<and> (NewRound e t = Some (Inr (err, t'))
            \<and> (CurrentRound (Meta t) = 0 \<or> CurrentRound (Meta t) = 1 \<or> CurrentRound (Meta t) = 2)
            \<and> sum_list (map Amount (CreatePots e (Players (Meta t)))) = roundBets t
            \<longrightarrow> chips t' = chips t)
       \<and> (NewRound e t = Some (Inr (err, t'))
            \<and> CurrentRound (Meta t) = 3
            \<and> sum_list (map Amount (CreatePots e (Players (Meta t)))) = roundBets t
            \<and> (\<forall>pot \<in> set (Pots (Meta t) @ CreatePots e (Players (Meta t))). 0 \<le>s Amount pot)
            \<longrightarrow> chips t' = chips t)"
proof (intro conjI impI)
  assume "handleCheck t playerId = Inr (err, t')"
  with d show "chips t' = chips t" by (rule handleCheck_chips)
next
  assume "handleFold t playerId = Inr (err, t')"
  with d show "chips t' = chips t" by (rule handleFold_chips)
next
  assume "handleRaise t playerId amount = Inr (err, t')"
  with d show "chips t' = chips t" by (rule handleRaise_chips)
next
  assume a: "handleCall t playerId = Inr (err, t')
            \<and> get_player t playerId = Inr p \<and> get_player t' playerId = Inr p'
            \<and> (GetLastBet p = 0 \<or> 0 <s GetBalance p')"
  then show "chips t' = chips t"
    using handleCall_chips [OF d, of playerId err t' p p'] by blast
next
  assume a: "betBlinds t = Inr (err, t')
            \<and> blindPlayers t = Inr (smallBlindPlayer, bigBlindPlayer)
            \<and> smallBlindPlayer \<noteq> bigBlindPlayer
            \<and> get_player t smallBlindPlayer = Inr p \<and> GetLastBet p = 0
            \<and> get_player t bigBlindPlayer = Inr q \<and> GetLastBet q = 0"
  then show "chips t' = chips t"
    using betBlinds_chips [OF d, of err t' smallBlindPlayer bigBlindPlayer p q] by blast
next
  assume a: "NewRound e t = Some (Inr (err, t'))
            \<and> (CurrentRound (Meta t) = 0 \<or> CurrentRound (Meta t) = 1 \<or> CurrentRound (Meta t) = 2)
            \<and> sum_list (map Amount (CreatePots e (Players (Meta t)))) = roundBets t"
  then show "chips t' = chips t"
    using NewRound_betting_round_chips [of e t err t'] by blast
next
  assume a: "NewRound e t = Some (Inr (err, t'))
            \<and> CurrentRound (Meta t) = 3
            \<and> sum_list (map Amount (CreatePots e (Players (Meta t)))) = roundBets t
            \<and> (\<forall>pot \<in> set (Pots (Meta t) @ CreatePots e (Players (Meta t))). 0 \<le>s Amount pot)"
  then have r: "NewRound e t = Some (Inr (err, t'))" and rd: "CurrentRound (Meta t) = 3"
    and cp: "sum_list (map Amount (CreatePots e (Players (Meta t)))) = roundBets t"
    and nn: "\<forall>pot \<in> set (Pots (Meta t) @ CreatePots e (Players (Meta t))). 0 \<le> sint (Amount pot)"
    by (simp_all add: word_sle_eq)
  show "chips t' = chips t"
  proof (cases "GameStarted (Meta t)")
    case True
    from r rd True d cp nn show ?thesis by (rule NewRound_showdown_chips)
  next
    case False
    with r show ?thesis by (simp add: NewRound_def)
  qed
qed

text \<open>
  The operations of C1 on the tables of the heads-up hand: a fold, a raise to 25, the
  dealer's call, a check on the flop, the blinds, the advance to the flop and the
  settlement, each with its conditions met. 200 chips are on the table throughout.
\<close>

theorem chips_conserved_by_operations_witness:
  "distinct (map fst (Players (Meta example_started)))
   \<and> handleFold example_started ''a'' = Inr (None, example_folded)
   \<and> chips example_folded = chips example_started
   \<and> handleRaise example_started ''a'' 25 = Inr (None, example_raised)
   \<and> chips example_raised = chips example_started
   \<and> handleCall example_started ''b'' = Inr (None, example_dealer_called)
   \<and> chips example_dealer_called = chips example_started
   \<and> handleCheck example_flop ''a'' = Inr (None, example_flop_checked)
   \<and> chips example_flop_checked = chips example_flop
   \<and> betBlinds example_dealt = Inr (None, example_started)
   \<and> blindPlayers example_dealt = Inr (''b'', ''a'')
   \<and> chips example_started = chips example_dealt
   \<and> NewRound example_env example_called = Some (Inr (None, example_flop))
   \<and> chips example_flop = chips example_called
   \<and> NewRound example_env example_river = Some (Inr (None, example_settled))
   \<and> CurrentRound (Meta example_river) = 3
   \<and> chips example_settled = chips example_river
   \<and> chips example_settled = 200"
proof -
  have d1: "distinct (map fst (Players (Meta example_started)))"
    and d2: "distinct (map fst (Players (Meta example_flop)))"
    and d3: "distinct (map fst (Players (Meta example_dealt)))"
    and d4: "distinct (map fst (Players (Meta example_called)))"
    and d5: "distinct (map fst (Players (Meta example_river)))"
    by code_simp+
  have fold: "handleFold example_started ''a'' = Inr (None, example_folded)"
    by code_simp
  have raise: "handleRaise example_started ''a'' 25 = Inr (None, example_raised)"
    by code_simp
  have call: "handleCall example_started ''b'' = Inr (None, example_dealer_called)"
    "get_player example_started ''b'' =
       Inr \<lparr>GetId = ''b'', GetBalance = 95, GetHand = [49, 48], GetFold = False,
            GetReadyStatus = False, GetLastBet = 5\<rparr>"
    "get_player example_dealer_called ''b'' =
       Inr \<lparr>GetId = ''b'', GetBalance = 90, GetHand = [49, 48], GetFold = False,
            GetReadyStatus = True, GetLastBet = 10\<rparr>"
    by code_simp+
  have check: "handleCheck example_flop ''a'' = Inr (None, example_flop_checked)"
    by code_simp
  have blinds: "betBlinds example_dealt = Inr (None, example_started)"
    "blindPlayers example_dealt = Inr (''b'', ''a'')"
    "get_player example_dealt ''b'' =
       Inr \<lparr>GetId = ''b'', GetBalance = 100, GetHand = [49, 48], GetFold = False,
            GetReadyStatus = False, GetLastBet = 0\<rparr>"
    "get_player example_dealt ''a'' =
       Inr \<lparr>GetId = ''a'', GetBalance = 100, GetHand = [51, 50], GetFold = False,
            GetReadyStatus = False, GetLastBet = 0\<rparr>"
    by code_simp+
  have flop: "NewRound example_env example_called = Some (Inr (None, example_flop))"
    "CurrentRound (Meta example_called) = 0"
    "sum_list (map Amount (CreatePots example_env (Players (Meta example_called)))) =
       roundBets example_called"
    by code_simp+
  have settle: "NewRound example_env example_river = Some (Inr (None, example_settled))"
    "CurrentRound (Meta example_river) = 3"
    "sum_list (map Amount (CreatePots example_env (Players (Meta example_river)))) =
       roundBets example_river"
    "\<forall>pot \<in> set (Pots (Meta example_river)
                   @ CreatePots example_env (Players (Meta example_river))). 0 \<le>s Amount pot"
    "chips example_settled = 200"
    by code_simp+
  have c1: "chips example_folded = chips example_started"
    using chips_conserved_by_operations [OF d1, where playerId = "''a''" and err = None
        and t' = example_folded] fold
    by simp
  have c2: "chips example_raised = chips example_started"
    using chips_conserved_by_operations [OF d1, where playerId = "''a''" and err = None
        and t' = example_raised and amount = 25] raise
    by simp
  have c3: "chips example_dealer_called = chips example_started"
    using chips_conserved_by_operations [OF d1, where playerId = "''b''" and err = None
        and t' = example_dealer_called
        and p = "\<lparr>GetId = ''b'', GetBalance = 95, GetHand = [49, 48], GetFold = False,
                  GetReadyStatus = False, GetLastBet = 5\<rparr>"
        and p' = "\<lparr>GetId = ''b'', GetBalance = 90, GetHand = [49, 48], GetFold = False,
                  GetReadyStatus = True, GetLastBet = 10\<rparr>"] call
    by (simp add: word_sless_alt)
  have c4: "chips example_flop_checked = chips example_flop"
    using chips_conserved_by_operations [OF d2, where playerId = "''a''" and err = None
        and t' = example_flop_checked] check
    by simp
  have c5: "chips example_started = chips example_dealt"
    using chips_conserved_by_operations [OF d3, where err = None and t' = example_started
        and smallBlindPlayer = "''b''" and bigBlindPlayer = "''a''"
        and p = "\<lparr>GetId = ''b'', GetBalance = 100, GetHand = [49, 48], GetFold = False,
                  GetReadyStatus = False, GetLastBet = 0\<rparr>"
        and q = "\<lparr>GetId = ''a'', GetBalance = 100, GetHand = [51, 50], GetFold = False,
                  GetReadyStatus = False, GetLastBet = 0\<rparr>"] blinds
    by simp
  have c6: "chips example_flop = chips example_called"
    using chips_conserved_by_operations [OF d4, where e = example_env and err = None
        and t' = example_flop] flop
    by simp
  have c7: "chips example_settled = chips example_river"
    using chips_conserved_by_operations [OF d5, where e = example_env and err = None
        and t' = example_settled] settle
    by simp
  from d1 fold raise call(1) check blinds(1,2) flop(1) settle(1,2,5) c1 c2 c3 c4 c5 c6 c7
  show ?thesis
    by simp
qed

text \<open>
  C1 as stated fails: in the heads-up scenario the balances are 200 before \<open>StartGame\<close>;
  after it the blinds have left the balances (185 remain) and are in no pot.
\<close>

theorem balances_and_pots_not_conserved:
  "StartGame example_env example_heads_up = Some (Inr (None, example_started))
   \<and> balances example_heads_up = 200
   \<and> balances example_started + potTotal example_started = 185
   \<and> balances example_started + potTotal example_started \<noteq> balances example_heads_up"
  by code_simp

text \<open>
  C2. The claim: a player who has folded is no candidate for any pot at the showdown and
  is credited nothing. \<open>PayMoney\<close> skips the applicants whose fold flag is set, but
  \<open>NewRound\<close> clears every fold flag (\<open>refreshPlayers\<close> with \<open>fold = true\<close>) before it
  calls \<open>PayMoney\<close>. In the hand below, with an ante of 2, player b folds before the
  flop. On the river b is marked folded, has 95 chips and is an applicant of the ante
  pot; on that table the candidates for the ante pot are a alone, and on the table with
  the flags cleared, which is the one \<open>PayMoney\<close> is run on, they are a and b. The
  evaluator of the scenario declares a tie, and b ends the hand with 97 chips.
\<close>

theorem showdown_pays_folded_player:
  "observe (run example_env ante_table
      [CallStartGame, CallMakeMove ''a'' ''call'' 0, CallMakeMove ''b'' ''fold'' 0,
       CallMakeMove ''a'' ''check'' 0, CallMakeMove ''a'' ''check'' 0])
      (\<lambda>t. (CurrentRound (Meta t), map_option GetFold (map_of (Players (Meta t)) ''b''),
             balance_of t ''b'', Pots (Meta t) ! 1,
             candidates t (Pots (Meta t) ! 1),
             candidates (t\<lparr>Meta := (Meta t)\<lparr>Players :=
                 refreshPlayers (Players (Meta t)) True\<rparr>\<rparr>) (Pots (Meta t) ! 1))) =
     Some (Inr (None, 3, Some True, Some 95, \<lparr>Amount = 4, Applicants = [''a'', ''b'']\<rparr>,
                Inr [''a''], Inr [''a'', ''b'']))
   \<and> observe (run example_env ante_table
      [CallStartGame, CallMakeMove ''a'' ''call'' 0, CallMakeMove ''b'' ''fold'' 0,
       CallMakeMove ''a'' ''check'' 0, CallMakeMove ''a'' ''check'' 0,
       CallMakeMove ''a'' ''check'' 0])
      (\<lambda>t. (GameStarted (Meta t), balance_of t ''a'', balance_of t ''b'')) =
     Some (Inr (None, False, Some 107, Some 97))"
  by code_simp

text \<open>
  C3. The claim: \<open>checkReady\<close> is true exactly when, in a started game, every player who
  has not folded is ready, and a player with balance zero does not keep it from being
  true. The code returns false as soon as any seated player has balance zero. In the
  run below the second player calls with the last chips: the game is started, nobody has
  folded, everybody is ready, and \<open>checkReady\<close> is false, so the round stays at 0.
\<close>

theorem checkReady_all_in_blocks:
  "run example_env short_stack
     [CallStartGame, CallMakeMove ''a'' ''call'' 0, CallMakeMove ''b'' ''call'' 0]
     = Some (Inr (None, short_stack_all_in))
   \<and> GameStarted (Meta short_stack_all_in)
   \<and> list_all (\<lambda>(k, v). \<not> GetFold v \<and> GetReadyStatus v) (Players (Meta short_stack_all_in))
   \<and> balance_of short_stack_all_in ''b'' = Some 0
   \<and> checkReady short_stack_all_in = False
   \<and> CurrentRound (Meta short_stack_all_in) = 0"
  by code_simp

text \<open>
  C4. The claim: with a current bet other than zero, \<open>MakeMove\<close> with the action
  \<open>check\<close> by the player whose turn it is returns \<open>CantCheck\<close> and leaves the table
  as it was. In the code \<open>handleCheck\<close> returns that error and \<open>MakeMove\<close> drops it:
  after \<open>StartGame\<close> on the heads-up table the current bet is 10, and the check of the
  player to move returns no error, marks the player ready and passes the turn.
\<close>

theorem MakeMove_check_drops_CantCheck:
  "StartGame example_env example_heads_up = Some (Inr (None, example_started))
   \<and> turnPlayer example_started = Inr ''a''
   \<and> CurrentBet (Meta example_started) = 10
   \<and> handleCheck example_started ''a'' = Inr (Some ErrCantCheck, example_started)
   \<and> MakeMove example_env example_started ''a'' ''check'' 0 =
       Some (Inr (None, example_started\<lparr>Meta := (Meta example_started)
         \<lparr>PlayerTurnInd := 1,
          Players := [(''a'', \<lparr>GetId = ''a'', GetBalance = 90, GetHand = [51, 50],
                               GetFold = False, GetReadyStatus = True, GetLastBet = 10\<rparr>),
                      (''b'', \<lparr>GetId = ''b'', GetBalance = 95, GetHand = [49, 48],
                               GetFold = False, GetReadyStatus = False, GetLastBet = 5\<rparr>)]\<rparr>\<rparr>))"
  by code_simp

text \<open>
  C5, as amended. The claim: in the heads-up scenario the dealer posts 5, the opponent
  10, the current bet is 10; the dealer can then call, after which the dealer has 90,
  both last bets are 10 and the round has advanced to the flop. In the code the round
  advances inside the call that completes it, and entering a round resets every last bet
  to 0. What holds, for any collaborators, any seed other than zero, a deck of at least
  four cards and a table that admits two players: \<open>StartGame\<close> returns with the second
  player as dealer, the dealer at 95 with a bet of 5, the opponent at 90 with a bet of
  10, current bet 10 and round 0; \<open>handleCall\<close> for the dealer on that table leaves
  the dealer at 90 and both last bets at 10; and once the two players have called, each
  on their turn, the round is 1, both balances are 90 and both last bets are 0. Which
  of the two is first to move is not part of the statement.
\<close>

theorem heads_up_scenario:
  assumes mx: "2 < sint (MaxPlayers config)" and ab: "a \<noteq> b" and seed: "seed \<noteq> 0"
    and deck: "4 \<le> length (rand_Shuffle e seed (GetStandardDeck e))"
  shows "\<exists>s. StartGame e (heads_up config seed a b) = Some (Inr (None, s))
      \<and> dealerPlayer s = Inr b
      \<and> balance_of s b = Some 95 \<and> lastBet_of s b = Some 5
      \<and> balance_of s a = Some 90 \<and> lastBet_of s a = Some 10
      \<and> CurrentBet (Meta s) = 10 \<and> CurrentRound (Meta s) = 0
      \<and> (\<exists>s'. handleCall s b = Inr (None, s')
            \<and> balance_of s' b = Some 90 \<and> lastBet_of s' a = Some 10 \<and> lastBet_of s' b = Some 10)
      \<and> (\<exists>p1 p2 s1 s2. turnPlayer s = Inr p1
            \<and> MakeMove e s p1 ''call'' amount1 = Some (Inr (None, s1))
            \<and> turnPlayer s1 = Inr p2 \<and> p2 \<noteq> p1
            \<and> MakeMove e s1 p2 ''call'' amount2 = Some (Inr (None, s2))
            \<and> CurrentRound (Meta s2) = 1
            \<and> balance_of s2 a = Some 90 \<and> balance_of s2 b = Some 90
            \<and> lastBet_of s2 a = Some 0 \<and> lastBet_of s2 b = Some 0)"
proof -
  from start_heads_up [OF mx ab seed deck] obtain ha hb d pots where
    s: "StartGame e (heads_up config seed a b) =
          Some (Inr (None, hu_started config seed a b ha hb d pots))"
    by blast
  let ?s = "hu_started config seed a b ha hb d pots"
  let ?s1 = "?s\<lparr>Meta := (Meta ?s)
           \<lparr>PlayerTurnInd := 1,
            Players := [(a, \<lparr>GetId = a, GetBalance = 90, GetHand = ha, GetFold = False,
                         GetReadyStatus = True, GetLastBet = 10\<rparr>),
                   (b, \<lparr>GetId = b, GetBalance = 95, GetHand = hb, GetFold = False,
                         GetReadyStatus = False, GetLastBet = 5\<rparr>)]\<rparr>\<rparr>"
  have facts: "dealerPlayer ?s = Inr b" "balance_of ?s b = Some 95" "lastBet_of ?s b = Some 5"
    "balance_of ?s a = Some 90" "lastBet_of ?s a = Some 10" "CurrentBet (Meta ?s) = 10"
    "CurrentRound (Meta ?s) = 0" "turnPlayer ?s = Inr a" "turnPlayer ?s1 = Inr b"
    using ab ab [symmetric]
    by (simp_all add: hu_started_def dealerPlayer_def turnPlayer_def index_at_def
        balance_of_def lastBet_of_def)
  from hu_second_call [OF ab, where e = e and config = config and seed = seed and ha = ha
      and hb = hb and d = d and pots = pots and amount = amount2] obtain s2 where
    s2: "MakeMove e ?s1 b ''call'' amount2 = Some (Inr (None, s2))"
      "CurrentRound (Meta s2) = 1" "balance_of s2 a = Some 90" "balance_of s2 b = Some 90"
      "lastBet_of s2 a = Some 0" "lastBet_of s2 b = Some 0"
    by blast
  have moves: "\<exists>p1 p2 s1 s2. turnPlayer ?s = Inr p1
            \<and> MakeMove e ?s p1 ''call'' amount1 = Some (Inr (None, s1))
            \<and> turnPlayer s1 = Inr p2 \<and> p2 \<noteq> p1
            \<and> MakeMove e s1 p2 ''call'' amount2 = Some (Inr (None, s2))
            \<and> CurrentRound (Meta s2) = 1
            \<and> balance_of s2 a = Some 90 \<and> balance_of s2 b = Some 90
            \<and> lastBet_of s2 a = Some 0 \<and> lastBet_of s2 b = Some 0"
    using facts(8,9) hu_first_call [OF ab, where e = e and config = config and seed = seed
        and ha = ha and hb = hb and d = d and pots = pots and amount = amount1] s2 ab
    by (intro exI [of _ a] exI [of _ b] exI [of _ ?s1] exI [of _ s2]) simp
  show ?thesis
    using s facts(1-7) hu_dealer_call [OF ab, where config = config and seed = seed and ha = ha
        and hb = hb and d = d and pots = pots] moves
    by (intro exI [of _ ?s]) simp
qed

text \<open>The scenario of C5 with the collaborators of the examples and seed 7.\<close>

theorem heads_up_scenario_witness:
  "\<exists>s. StartGame example_env (heads_up example_config 7 ''a'' ''b'') = Some (Inr (None, s))
      \<and> dealerPlayer s = Inr ''b''
      \<and> balance_of s ''b'' = Some 95 \<and> lastBet_of s ''b'' = Some 5
      \<and> balance_of s ''a'' = Some 90 \<and> lastBet_of s ''a'' = Some 10
      \<and> CurrentBet (Meta s) = 10 \<and> CurrentRound (Meta s) = 0
      \<and> (\<exists>s'. handleCall s ''b'' = Inr (None, s')
            \<and> balance_of s' ''b'' = Some 90 \<and> lastBet_of s' ''a'' = Some 10
            \<and> lastBet_of s' ''b'' = Some 10)
      \<and> (\<exists>p1 p2 s1 s2. turnPlayer s = Inr p1
            \<and> MakeMove example_env s p1 ''call'' 0 = Some (Inr (None, s1))
            \<and> turnPlayer s1 = Inr p2 \<and> p2 \<noteq> p1
            \<and> MakeMove example_env s1 p2 ''call'' 0 = Some (Inr (None, s2))
            \<and> CurrentRound (Meta s2) = 1
            \<and> balance_of s2 ''a'' = Some 90 \<and> balance_of s2 ''b'' = Some 90
            \<and> lastBet_of s2 ''a'' = Some 0 \<and> lastBet_of s2 ''b'' = Some 0)"
  by (rule heads_up_scenario) (simp_all add: example_config_def NewTableConfig_def example_env_def)

text \<open>
  C5 as stated fails: after \<open>StartGame\<close> the dealer b is not the player to move, and the
  dealer's \<open>MakeMove\<close> returns \<open>NotYourTurn\<close>; after the calls of a and then b, the
  round is 1 and both last bets are 0, not 10.
\<close>

theorem dealer_cannot_call_first:
  "StartGame example_env example_heads_up = Some (Inr (None, example_started))
   \<and> dealerPlayer example_started = Inr ''b''
   \<and> MakeMove example_env example_started ''b'' ''call'' 0 =
       Some (Inr (Some ErrNotYourTurn, example_started))
   \<and> observe (run example_env example_started
        [CallMakeMove ''a'' ''call'' 0, CallMakeMove ''b'' ''call'' 0])
        (\<lambda>t. (CurrentRound (Meta t), lastBet_of t ''a'', lastBet_of t ''b'')) =
       Some (Inr (None, 1, Some 0, Some 0))"
  by code_simp

text \<open>
  C6. The claim: \<open>AddPlayer\<close> fails with \<open>MaxPlayers\<close> only when the seated and the
  queued players already number \<open>MaxPlayers\<close>. The code compares \<open>MaxPlayers\<close> with
  that number plus one: at a table for two with one player seated, the second player is
  refused.
\<close>

theorem AddPlayer_full_one_early:
  "MaxPlayers (Config table_for_two) = 2
   \<and> length (Players (Meta table_for_two)) + length (Query (Meta table_for_two)) = 1
   \<and> \<not> GameStarted (Meta table_for_two)
   \<and> AddPlayer table_for_two (new_player ''b'' 100) = (Some ErrMaxPlayers, table_for_two)"
  by code_simp

text \<open>
  C7. The claim: \<open>PlayersOrder\<close> lists the keys of \<open>Players\<close> once each, and \<open>Query\<close>
  shares no key with \<open>Players\<close>; a promoted player has left \<open>Query\<close>.
  \<open>enterPlayersFromQuery\<close> copies the queued players and never empties \<open>Query\<close>. Player
  c joins during the first hand: when the second hand starts, c is seated and still
  queued, and when the third hand starts, c is appended to \<open>PlayersOrder\<close> a second
  time.
\<close>

theorem promoted_player_stays_queued:
  "observe (run example_env example_heads_up (first_hand_with_join @ [CallStartGame]))
      (\<lambda>t. (map fst (Players (Meta t)), map fst (Query (Meta t)), PlayersOrder (Meta t))) =
     Some (Inr (None, [''a'', ''b'', ''c''], [''c''], [''a'', ''b'', ''c'']))
   \<and> observe (run example_env example_heads_up
        (first_hand_with_join @ second_hand @ [CallStartGame]))
      (\<lambda>t. (map fst (Players (Meta t)), map fst (Query (Meta t)), PlayersOrder (Meta t))) =
     Some (Inr (None, [''a'', ''b'', ''c''], [''c''], [''a'', ''b'', ''c'', ''c'']))"
  by code_simp

text \<open>
  C8. After a valid raise (the game is started, the raiser is seated and has not folded,
  the amount exceeds twice the current bet, the raiser's last bet and zero, and the
  raiser's balance covers the amount less the last bet), \<open>handleRaise\<close> returns no
  error; the current bet is the amount; the raiser has the amount as last bet, the
  balance less the difference, and is ready; every other player who has not folded is
  not ready. The comparisons and differences are those of Go's \<open>int\<close>.
\<close>

theorem handleRaise_reopens:
  assumes started: "GameStarted (Meta t)"
    and seated: "map_of (Players (Meta t)) playerId = Some p"
    and nofold: "\<not> GetFold p"
    and twice: "CurrentBet (Meta t) * 2 <s amount"
    and above: "GetLastBet p <s amount"
    and pos: "0 <s amount"
    and afford: "\<not> GetBalance p <s amount - GetLastBet p"
  shows "\<exists>t'. handleRaise t playerId amount = Inr (None, t')
           \<and> CurrentBet (Meta t') = amount
           \<and> map_of (Players (Meta t')) playerId =
               Some (p\<lparr>GetLastBet := amount,
                       GetBalance := GetBalance p - (amount - GetLastBet p),
                       GetReadyStatus := True\<rparr>)
           \<and> (\<forall>k q. k \<noteq> playerId \<and> map_of (Players (Meta t')) k = Some q \<and> \<not> GetFold q
                  \<longrightarrow> \<not> GetReadyStatus q)"
proof -
  let ?ps = "map (\<lambda>(k, v). if \<not> GetFold v then (k, SetStatus False v) else (k, v))
               (Players (Meta t))"
  let ?p' = "p\<lparr>GetLastBet := amount,
               GetBalance := GetBalance p - (amount - GetLastBet p),
               GetReadyStatus := True\<rparr>"
  let ?t' = "t\<lparr>Meta := (Meta t)\<lparr>Players := AList.update playerId ?p' ?ps,
                                 CurrentBet := amount\<rparr>\<rparr>"
  have r: "handleRaise t playerId amount = Inr (None, ?t')"
    using assms
    by (simp add: handleRaise_def get_player_def pbind_def resetPlayersStatus_def
        set_player_def Let_def map_of_reset update_conv' SetStatus_def SetLastBet_def
        ChangeBalance_def debit_eq)
  have others: "\<forall>k q. k \<noteq> playerId \<and> map_of (Players (Meta ?t')) k = Some q \<and> \<not> GetFold q
                  \<longrightarrow> \<not> GetReadyStatus q"
  proof (intro allI impI)
    fix k q
    assume a: "k \<noteq> playerId \<and> map_of (Players (Meta ?t')) k = Some q \<and> \<not> GetFold q"
    then have k: "k \<noteq> playerId" and m: "map_of (Players (Meta ?t')) k = Some q"
      by blast+
    from m k have "map_option (\<lambda>v. if \<not> GetFold v then SetStatus False v else v)
                     (map_of (Players (Meta t)) k) = Some q"
      by (simp add: update_conv' map_of_reset)
    then obtain v where v: "map_of (Players (Meta t)) k = Some v"
      and q: "q = (if \<not> GetFold v then SetStatus False v else v)"
      by auto
    show "\<not> GetReadyStatus q"
    proof (cases "GetFold v")
      case True
      with q a show ?thesis by simp
    next
      case False
      with q show ?thesis by (simp add: SetStatus_def)
    qed
  qed
  show ?thesis
    using r others by (intro exI [of _ ?t']) (simp add: update_conv')
qed

text \<open>
  The raise to 25 over the big blind of 10 in the heads-up scenario: the raiser a goes
  from 90 to 75, and the other player b, who has not folded, is not ready.
\<close>

theorem handleRaise_reopens_witness:
  "GameStarted (Meta example_started)
   \<and> CurrentBet (Meta example_started) * 2 <s 25
   \<and> handleRaise example_started ''a'' 25 = Inr (None, example_raised)
   \<and> CurrentBet (Meta example_raised) = 25
   \<and> map_of (Players (Meta example_raised)) ''a'' =
        Some \<lparr>GetId = ''a'', GetBalance = 75, GetHand = [51, 50], GetFold = False,
              GetReadyStatus = True, GetLastBet = 25\<rparr>
   \<and> map_of (Players (Meta example_raised)) ''b'' =
        Some \<lparr>GetId = ''b'', GetBalance = 95, GetHand = [49, 48], GetFold = False,
              GetReadyStatus = False, GetLastBet = 5\<rparr>"
proof -
  let ?a = "\<lparr>GetId = ''a'', GetBalance = 90, GetHand = [51, 50], GetFold = False,
             GetReadyStatus = False, GetLastBet = 10\<rparr> :: nat player"
  have h: "GameStarted (Meta example_started)"
    "map_of (Players (Meta example_started)) ''a'' = Some ?a"
    "\<not> GetFold ?a" "CurrentBet (Meta example_started) * 2 <s 25" "GetLastBet ?a <s 25"
    "(0 :: go_int) <s 25" "\<not> GetBalance ?a <s 25 - GetLastBet ?a"
    by code_simp+
  have r: "handleRaise example_started ''a'' 25 = Inr (None, example_raised)"
    by code_simp
  have m: "map_of (Players (Meta example_raised)) ''a'' =
        Some \<lparr>GetId = ''a'', GetBalance = 75, GetHand = [51, 50], GetFold = False,
              GetReadyStatus = True, GetLastBet = 25\<rparr>"
    "map_of (Players (Meta example_raised)) ''b'' =
        Some \<lparr>GetId = ''b'', GetBalance = 95, GetHand = [49, 48], GetFold = False,
              GetReadyStatus = False, GetLastBet = 5\<rparr>"
    "CurrentBet (Meta example_raised) = 25"
    by code_simp+
  from handleRaise_reopens [OF h] r
  have "\<forall>k q. k \<noteq> ''a'' \<and> map_of (Players (Meta example_raised)) k = Some q \<and> \<not> GetFold q
          \<longrightarrow> \<not> GetReadyStatus q"
    by auto
  with m(2) have "\<not> GetReadyStatus \<lparr>GetId = ''b'', GetBalance = 95, GetHand = [49, 48 :: nat],
      GetFold = False, GetReadyStatus = False, GetLastBet = 5\<rparr>"
    by simp
  with h(1,4) r m show ?thesis
    by blast
qed




text \<open>
  C10. With the standard deck of 52 cards, \<open>refreshDeck\<close> returns exactly when the seed
  is not zero, and then the deck is the shuffled standard deck; with seed zero the
  shuffle dereferences the nil generator, and so does \<open>StartGame\<close> on a table that
  has not started.
\<close>

theorem refreshDeck_needs_seed:
  assumes "length (GetStandardDeck e) = 52"
  shows "(Seed m = 0 \<longrightarrow> refreshDeck e m = Inl NilDereference)
       \<and> (Seed m \<noteq> 0 \<longrightarrow>
            refreshDeck e m = Inr (m\<lparr>Deck := rand_Shuffle e (Seed m) (GetStandardDeck e)\<rparr>))
       \<and> (\<not> GameStarted (Meta t) \<and> Seed (Meta t) = 0 \<longrightarrow>
            StartGame e t = Some (Inl NilDereference))"
  using assms
  by (simp add: refreshDeck_def Shuffle_def pbind_def StartGame_def obind_def Let_def)

text \<open>Seeds 0 and 7 with the deck of the examples.\<close>

theorem refreshDeck_needs_seed_witness:
  "length (GetStandardDeck example_env) = 52
   \<and> refreshDeck example_env (NewTableMeta 5 0 0) = Inl NilDereference
   \<and> refreshDeck example_env (NewTableMeta 5 0 7) =
       Inr ((NewTableMeta 5 0 7)\<lparr>Deck := rand_Shuffle example_env 7 (GetStandardDeck example_env)\<rparr>)
   \<and> StartGame example_env (NewPokerTable example_config (NewTableMeta 5 0 0)) =
       Some (Inl NilDereference)"
  using refreshDeck_needs_seed [of example_env "NewTableMeta 5 0 0"
          "NewPokerTable example_config (NewTableMeta 5 0 0)"]
        refreshDeck_needs_seed [of example_env "NewTableMeta 5 0 7"
          "NewPokerTable example_config (NewTableMeta 5 0 0)"]
  by (simp add: example_env_def NewTableMeta_def NewPokerTable_def)

end
